theory Spec2Isabelle
  imports Complex_Main "HOL-Library.Word" "HOL-Library.Sublist"
begin

unbundle bit_operations_syntax

section \<open>Data model of the WSA API (wsa\_lib.h and the API source)\<close>

text \<open>
  Machine integers are words of the declared width: \<open>int16_t\<close> is \<open>16 word\<close>,
  \<open>int32_t\<close> is \<open>32 word\<close>, \<open>int64_t\<close> and \<open>uint64_t\<close> are \<open>64 word\<close>.
  Signed comparisons of the source are written \<open><s\<close> and \<open>\<le>s\<close>, unsigned ones
  \<open><\<close> and \<open>\<le>\<close>. A narrowing cast such as \<open>(int16_t) query.status\<close> is \<open>ucast\<close>
  (it keeps the low bits). A \<open>long\<close> is modelled by its value, an \<open>int\<close>, since
  its width depends on the platform. A \<open>double\<close> or \<open>float\<close> is modelled by the real
  number it denotes; the operations the API applies to one are comparisons with integer
  bounds, truncating casts and the narrowing of a \<open>double\<close> to a \<open>float\<close>.
\<close>

type_synonym int16_t = "16 word"
type_synonym int32_t = "32 word"
type_synonym int64_t = "64 word"
type_synonym uint32_t = "32 word"
type_synonym uint64_t = "64 word"
type_synonym long = int
type_synonym double = real

text \<open>\<open>enum wsa_gain\<close>: the enumerators with their integer values.\<close>

type_synonym wsa_gain = int

definition WSA_GAIN_HIGH :: wsa_gain where "WSA_GAIN_HIGH = 1"
definition WSA_GAIN_MED :: wsa_gain where "WSA_GAIN_MED = 2"
definition WSA_GAIN_LOW :: wsa_gain where "WSA_GAIN_LOW = 3"
definition WSA_GAIN_VLOW :: wsa_gain where "WSA_GAIN_VLOW = 4"

definition WSA_RFE0440 :: string where "WSA_RFE0440 = ''RFE0440''"
definition WSA_RFE0560 :: string where "WSA_RFE0560 = ''RFE0560''"

record wsa_descriptor =
  prod_name :: string
  prod_serial :: string
  prod_version :: string
  rfe_name :: string
  rfe_version :: string
  fw_version :: string
  intf_type :: string
  inst_bw :: uint64_t
  max_sample_size :: uint32_t
  max_tune_freq :: uint64_t
  min_tune_freq :: uint64_t
  freq_resolution :: uint64_t
  max_if_gain :: int32_t
  min_if_gain :: int32_t
  min_decimation :: int32_t
  max_decimation :: int32_t
  abs_max_amp :: "real list"

record wsa_socket =
  cmd :: int32_t
  data :: int32_t

record wsa_device =
  descr :: wsa_descriptor
  sock :: wsa_socket

record wsa_resp =
  status :: int64_t
  "output" :: string

text \<open>
  The error codes are macros of \<open>wsa_error.h\<close>, a header that the repository does not
  hold. The codes that the functions below return are therefore a parameter; a theorem
  states what it assumes about a code (that it is negative).
\<close>

record wsa_errors =
  WSA_ERR_NOTIQFRAME :: int16_t
  WSA_ERR_FREQOUTOFBOUND :: int16_t
  WSA_ERR_INVRFGAIN :: int16_t
  WSA_ERR_INVNUMBER :: int16_t
  WSA_ERR_RESPUNKNOWN :: int16_t
  WSA_ERR_SWEEPALREADYRUNNING :: int16_t
  WSA_ERR_SWEEPLISTEMPTY :: int16_t
  WSA_ERR_SWEEPIDOOB :: int16_t
  WSA_ERR_SWEEPMODEUNDEF :: int16_t
  WSA_ERR_INVRFESETTING :: int16_t

text \<open>
  The bounds on the samples per packet are macros that \<open>wsa_lib.h\<close> does not define
  (it has \<open>WSA4000_MIN_SAMPLE_SIZE\<close> and \<open>WSA4000_MAX_SAMPLE_SIZE\<close>, which the API
  source does not use); they are a parameter too.
\<close>

record wsa_limits =
  WSA4000_MIN_SAMPLES_PER_PACKET :: int
  WSA4000_MAX_SAMPLES_PER_PACKET :: int

definition WSA_RFE0560_MAX_ANT_PORT :: int where "WSA_RFE0560_MAX_ANT_PORT = 2"

section \<open>Strings and formatting\<close>

text \<open>
  C strings are modelled as \<open>string\<close> (the characters before the terminating NUL).
  \<open>nl\<close> is the line feed that ends every command line.
\<close>

abbreviation nl :: string where "nl \<equiv> [CHR 0x0A]"

definition digit_char :: "nat \<Rightarrow> char" where
  "digit_char d = char_of (48 + d)"

function dec_digits :: "nat \<Rightarrow> string" where
  "dec_digits n =
     (if n < 10 then [digit_char n] else dec_digits (n div 10) @ [digit_char (n mod 10)])"
  by pat_completeness auto
termination
  by (relation "measure id") auto

declare dec_digits.simps [simp del]

text \<open>The \<open>sprintf\<close> conversions \<open>%d\<close>, \<open>%lld\<close> (signed) and \<open>%u\<close> (unsigned).\<close>

definition fmt_signed :: "int \<Rightarrow> string" where
  "fmt_signed i = (if i < 0 then CHR ''-'' # dec_digits (nat (- i)) else dec_digits (nat i))"

definition fmt_d :: "int32_t \<Rightarrow> string" where
  "fmt_d x = fmt_signed (sint x)"

definition fmt_lld :: "int64_t \<Rightarrow> string" where
  "fmt_lld x = fmt_signed (sint x)"

definition fmt_u :: "int32_t \<Rightarrow> string" where
  "fmt_u x = dec_digits (unat x)"

text \<open>\<open>strstr(s, t) != NULL\<close>: \<open>t\<close> occurs in \<open>s\<close>.\<close>

fun strstr :: "string \<Rightarrow> string \<Rightarrow> bool" where
  "strstr [] t = (t = [])"
| "strstr (c # cs) t = (prefix t (c # cs) \<or> strstr cs t)"

text \<open>
  \<open>strtok\<close> with the delimiter set \<open>","\<close>: \<open>tokens cur s\<close> lists the tokens of \<open>s\<close>
  (maximal runs of characters other than the comma; empty runs give no token), \<open>cur\<close>
  being the token collected so far. The hidden position that \<open>strtok\<close> keeps between
  calls is modelled by the list of tokens still to come.
\<close>

fun tokens :: "string \<Rightarrow> string \<Rightarrow> string list" where
  "tokens cur [] = (if cur = [] then [] else [cur])"
| "tokens cur (c # cs) =
     (if c = CHR '','' then (if cur = [] then tokens [] cs else cur # tokens [] cs)
      else tokens (cur @ [c]) cs)"

text \<open>
  Casts from \<open>double\<close> to an integer type truncate towards zero. For a value beyond the
  range of the target type the language leaves the cast undefined; the model gives what
  the conversion instructions of the x86 processors give, the smallest value of
  \<open>int64_t\<close> or \<open>int32_t\<close>. A cast to \<open>int16_t\<close> converts to \<open>int32_t\<close> and keeps the low
  16 bits.
\<close>

definition trunc :: "double \<Rightarrow> int" where
  "trunc d = (if 0 \<le> d then \<lfloor>d\<rfloor> else \<lceil>d\<rceil>)"

definition double_to_int64 :: "double \<Rightarrow> int64_t" where
  "double_to_int64 d =
     (if - (2 ^ 63) \<le> trunc d \<and> trunc d < 2 ^ 63 then word_of_int (trunc d)
      else word_of_int (- (2 ^ 63)))"

definition double_to_int32 :: "double \<Rightarrow> int32_t" where
  "double_to_int32 d =
     (if - (2 ^ 31) \<le> trunc d \<and> trunc d < 2 ^ 31 then word_of_int (trunc d)
      else word_of_int (- (2 ^ 31)))"

definition double_to_int16 :: "double \<Rightarrow> int16_t" where
  "double_to_int16 d = ucast (double_to_int32 d)"

section \<open>Frames\<close>

text \<open>
  Modelled from the spec: the structures that \<open>wsa_read_vrt_packet\<close> fills
  (\<open>wsa_vrt_packet_header\<close>, \<open>wsa_vrt_packet_trailer\<close>, \<open>wsa_receiver_packet\<close>,
  \<open>wsa_digitizer_packet\<close>) are declared in no header of the repository. Their fields
  follow the description of a frame in the specification: a header (stream identifier,
  declared packet size in words, packet counter, timestamp), a receiver context (centre
  frequency, IF and RF gain, temperature), a digitizer context (bandwidth, reference
  level, frequency offset) and a trailer (status and valid bits). Only \<open>stream_id\<close> is
  read by the API source. \<open>vrt_packet\<close> collects the four structures that the caller
  passes by pointer.
\<close>

record wsa_vrt_packet_header =
  stream_id :: uint32_t
  packet_size :: "16 word"
  pkt_count :: "8 word"
  time_stamp_sec :: uint32_t
  time_stamp_psec :: uint64_t

record wsa_vrt_packet_trailer =
  valid_bits :: uint32_t

record wsa_receiver_packet =
  rec_frequency :: int64_t
  rec_gain_if :: int16_t
  rec_gain_rf :: int16_t
  rec_temperature :: int32_t

record wsa_digitizer_packet =
  dig_bandwidth :: int64_t
  dig_reference_level :: int32_t
  dig_rf_frequency_offset :: int64_t

record vrt_packet =
  header :: wsa_vrt_packet_header
  trailer :: wsa_vrt_packet_trailer
  receiver :: wsa_receiver_packet
  digitizer :: wsa_digitizer_packet


section \<open>The world outside the API\<close>

text \<open>
  Modelled from the spec: the API talks to the instrument through \<open>wsa_send_command\<close>,
  \<open>wsa_send_query\<close> and \<open>wsa_sock_recv_data\<close>, converts reply text with \<open>to_int\<close> and
  \<open>to_double\<close>, and reads the processor clock with \<open>clock\<close>. The repository declares
  the first two in \<open>wsa_lib.h\<close> and holds the code of none of them. By the specification
  of the transaction layer, a command writes one line to the command channel and returns a
  result code; a query writes the line, reads the reply and stores its text and a status
  (the number of bytes read, or a negative code); the conversion helper parses a text as a
  number or reports failure with a negative result. What each call returns, and how it
  changes the instrument and its two channels, is a parameter: the record \<open>wsa_lib\<close>,
  over a state \<open>'i\<close> of the instrument that is left open.

  Two parameters belong to the platform rather than to the library: \<open>clock_t_max\<close>, the
  largest value of the signed integer type \<open>clock_t\<close>, whose values are modelled as
  \<open>int\<close>, and \<open>lib_to_float\<close>, the rounding of a \<open>double\<close> to single precision that the
  cast \<open>(float) temp\<close> performs.

  Every call of one of them is recorded as an \<open>event\<close> in the \<open>trace\<close> of the world,
  in the order of the calls, so that what a function wrote to the command channel, and
  whether it converted any text, can be read off the trace.
\<close>

datatype event =
    Command string
  | Query string
  | To_int "string option"
  | To_double "string option"
  | Read_header
  | Read_context
  | Read_payload
  | Read_trailer
  | Recv_data
  | Clock

record 'i wsa_lib =
  lib_send_command :: "'i \<Rightarrow> string \<Rightarrow> int16_t \<times> 'i"
  lib_send_query :: "'i \<Rightarrow> string \<Rightarrow> wsa_resp \<times> 'i"
  lib_to_int :: "string option \<Rightarrow> int16_t \<times> long"
  lib_to_double :: "string option \<Rightarrow> int16_t \<times> double"
  lib_sock_recv_data :: "'i \<Rightarrow> int16_t \<times> 'i"
  lib_clock :: "'i \<Rightarrow> int \<times> 'i"
  clock_t_max :: int
  lib_to_float :: "double \<Rightarrow> real"
  lib_read_header :: "'i \<Rightarrow> (int16_t \<times> wsa_vrt_packet_header) \<times> 'i"
  lib_read_receiver :: "'i \<Rightarrow> (int16_t \<times> wsa_receiver_packet) \<times> 'i"
  lib_read_digitizer :: "'i \<Rightarrow> (int16_t \<times> wsa_digitizer_packet) \<times> 'i"
  lib_read_payload :: "'i \<Rightarrow> (int16_t \<times> 8 word list) \<times> 'i"
  lib_read_trailer :: "'i \<Rightarrow> (int16_t \<times> wsa_vrt_packet_trailer) \<times> 'i"
  lib_decode_frame ::
    "8 word list \<Rightarrow> int16_t list \<Rightarrow> int16_t list \<Rightarrow> int32_t
       \<Rightarrow> int32_t \<times> int16_t list \<times> int16_t list"

text \<open>
  \<open>strtok_rest\<close> is the hidden state of \<open>strtok\<close>. \<open>uninit\<close> stands for the contents
  of a \<open>char\<close> buffer that a function declares and reads before anything was stored in
  it (\<open>char status[40]\<close> in the callers of \<open>wsa_get_sweep_status\<close>).
\<close>

record 'i world =
  inst :: 'i
  trace :: "event list"
  strtok_rest :: "string list"
  uninit :: string

definition wsa_send_command ::
  "'i wsa_lib \<Rightarrow> wsa_device \<Rightarrow> string \<Rightarrow> 'i world \<Rightarrow> int16_t \<times> 'i world" where
  "wsa_send_command X dev command w =
     (case lib_send_command X (inst w) command of
        (result, i) \<Rightarrow> (result, w\<lparr>inst := i, trace := trace w @ [Command command]\<rparr>))"

definition wsa_send_query ::
  "'i wsa_lib \<Rightarrow> wsa_device \<Rightarrow> string \<Rightarrow> 'i world \<Rightarrow> wsa_resp \<times> 'i world" where
  "wsa_send_query X dev command w =
     (case lib_send_query X (inst w) command of
        (resp, i) \<Rightarrow> (resp, w\<lparr>inst := i, trace := trace w @ [Query command]\<rparr>))"

definition to_int ::
  "'i wsa_lib \<Rightarrow> string option \<Rightarrow> 'i world \<Rightarrow> (int16_t \<times> long) \<times> 'i world" where
  "to_int X s w = (lib_to_int X s, w\<lparr>trace := trace w @ [To_int s]\<rparr>)"

definition to_double ::
  "'i wsa_lib \<Rightarrow> string option \<Rightarrow> 'i world \<Rightarrow> (int16_t \<times> double) \<times> 'i world" where
  "to_double X s w = (lib_to_double X s, w\<lparr>trace := trace w @ [To_double s]\<rparr>)"

definition wsa_sock_recv_data ::
  "'i wsa_lib \<Rightarrow> wsa_device \<Rightarrow> 'i world \<Rightarrow> int16_t \<times> 'i world" where
  "wsa_sock_recv_data X dev w =
     (case lib_sock_recv_data X (inst w) of
        (result, i) \<Rightarrow> (result, w\<lparr>inst := i, trace := trace w @ [Recv_data]\<rparr>))"

definition clock :: "'i wsa_lib \<Rightarrow> 'i world \<Rightarrow> int \<times> 'i world" where
  "clock X w =
     (case lib_clock X (inst w) of
        (t, i) \<Rightarrow> (t, w\<lparr>inst := i, trace := trace w @ [Clock]\<rparr>))"

text \<open>
  \<open>strtok(s, ",")\<close> starts on a new string, \<open>strtok(NULL, ",")\<close> continues; either
  returns the next token, or \<open>NULL\<close> (\<open>None\<close>) when none is left.
\<close>

definition strtok_next :: "'i world \<Rightarrow> string option \<times> 'i world" where
  "strtok_next w =
     (case strtok_rest w of
        [] \<Rightarrow> (None, w)
      | t # ts \<Rightarrow> (Some t, w\<lparr>strtok_rest := ts\<rparr>))"

definition strtok_first :: "string \<Rightarrow> 'i world \<Rightarrow> string option \<times> 'i world" where
  "strtok_first s w = strtok_next (w\<lparr>strtok_rest := tokens [] s\<rparr>)"

section \<open>The amplitude section\<close>

text \<open>
  \<open>wsa_get_abs_max_amp\<close>: the second component of the result is the contents of
  \<open>*value\<close> on return. In the branch that reads the table the index is checked here,
  since HOL's \<open>!\<close> is unspecified beyond the length of the list; \<open>None\<close> is the read
  outside \<open>abs_max_amp[NUM_RF_GAINS]\<close>.
\<close>

definition wsa_get_abs_max_amp ::
  "wsa_errors \<Rightarrow> wsa_device \<Rightarrow> wsa_gain \<Rightarrow> real \<Rightarrow> (int16_t \<times> real) option" where
  "wsa_get_abs_max_amp E dev gain val =
     (if gain < WSA_GAIN_VLOW \<or> gain > WSA_GAIN_HIGH then Some (WSA_ERR_INVRFGAIN E, val)
      else if 0 \<le> gain \<and> nat gain < length (abs_max_amp (descr dev))
        then Some (0, abs_max_amp (descr dev) ! nat gain)
        else None)"

section \<open>The frequency section\<close>

text \<open>
  \<open>wsa_verify_freq\<close> takes a \<open>uint64_t\<close>; its callers pass an \<open>int64_t\<close>, which the
  call converts without changing the bits. Both are \<open>64 word\<close>, compared unsigned here.
\<close>

definition wsa_verify_freq :: "wsa_errors \<Rightarrow> wsa_device \<Rightarrow> uint64_t \<Rightarrow> int16_t" where
  "wsa_verify_freq E dev freq =
     (if freq < min_tune_freq (descr dev) \<or> freq > max_tune_freq (descr dev)
      then WSA_ERR_FREQOUTOFBOUND E
      else 0)"

text \<open>
  A getter takes the value its output parameter holds before the call and returns the
  value it holds afterwards, next to the \<open>int16_t\<close> result. Diagnostic output
  (\<open>printf\<close>, \<open>doutf\<close>) is left out.
\<close>

definition wsa_get_freq ::
  "'i wsa_lib \<Rightarrow> wsa_errors \<Rightarrow> wsa_device \<Rightarrow> int64_t \<Rightarrow> 'i world
     \<Rightarrow> int16_t \<times> int64_t \<times> 'i world" where
  "wsa_get_freq X E dev cfreq w =
     (case wsa_send_query X dev (''FREQ:CENT?'' @ nl) w of (query, w1) \<Rightarrow>
        if status query \<le>s 0 then (ucast (status query), cfreq, w1)
        else (case to_double X (Some (output query)) w1 of ((r, temp), w2) \<Rightarrow>
          if r <s 0 then (WSA_ERR_RESPUNKNOWN E, cfreq, w2)
          else if temp < real (unat (min_tune_freq (descr dev)))
                \<or> temp > real (unat (max_tune_freq (descr dev)))
            then (WSA_ERR_RESPUNKNOWN E, cfreq, w2)
          else (0, double_to_int64 temp, w2)))"

definition wsa_set_freq ::
  "'i wsa_lib \<Rightarrow> wsa_errors \<Rightarrow> wsa_device \<Rightarrow> int64_t \<Rightarrow> 'i world \<Rightarrow> int16_t \<times> 'i world" where
  "wsa_set_freq X E dev cfreq w =
     (let result = wsa_verify_freq E dev cfreq in
      if result <s 0 then (result, w)
      else (case wsa_send_command X dev (''FREQ:CENT '' @ fmt_lld cfreq @ '' Hz'' @ nl) w of
        (result, w1) \<Rightarrow> if result <s 0 then (result, w1) else (0, w1)))"

section \<open>The data acquisition section\<close>

definition wsa_get_decimation ::
  "'i wsa_lib \<Rightarrow> wsa_errors \<Rightarrow> wsa_device \<Rightarrow> int32_t \<Rightarrow> 'i world
     \<Rightarrow> int16_t \<times> int32_t \<times> 'i world" where
  "wsa_get_decimation X E dev rate w =
     (case wsa_send_query X dev ('':SENSE:DEC?'' @ nl) w of (query, w1) \<Rightarrow>
        if status query \<le>s 0 then (ucast (status query), rate, w1)
        else (case to_int X (Some (output query)) w1 of ((r, temp), w2) \<Rightarrow>
          if r <s 0 then (WSA_ERR_RESPUNKNOWN E, rate, w2)
          else if (temp \<noteq> 0 \<and> temp < sint (min_decimation (descr dev)))
                \<or> temp > sint (max_decimation (descr dev))
            then (WSA_ERR_RESPUNKNOWN E, rate, w2)
          else (0, word_of_int temp, w2)))"

section \<open>The sweep functions\<close>

definition wsa_get_sweep_status ::
  "'i wsa_lib \<Rightarrow> wsa_errors \<Rightarrow> wsa_device \<Rightarrow> string \<Rightarrow> 'i world
     \<Rightarrow> int16_t \<times> string \<times> 'i world" where
  "wsa_get_sweep_status X E device status_buf w =
     (case wsa_send_query X device (''SWEEP:LIST:STATUS?'' @ nl) w of (query, w1) \<Rightarrow>
        if status query \<le>s 0 then (ucast (status query), status_buf, w1)
        else if output query \<noteq> ''STOPPED'' \<and> output query \<noteq> ''RUNNING''
          then (WSA_ERR_SWEEPMODEUNDEF E, status_buf, w1)
        else (0, output query, w1))"

definition wsa_get_sweep_entry_size ::
  "'i wsa_lib \<Rightarrow> wsa_errors \<Rightarrow> wsa_device \<Rightarrow> int32_t \<Rightarrow> 'i world
     \<Rightarrow> int16_t \<times> int32_t \<times> 'i world" where
  "wsa_get_sweep_entry_size X E device sz w =
     (case wsa_send_query X device (''SWEEP:ENTRY:COUNT?'' @ nl) w of (query, w1) \<Rightarrow>
        if status query \<le>s 0 then (ucast (status query), sz, w1)
        else (case to_double X (Some (output query)) w1 of ((r, temp), w2) \<Rightarrow>
          if r <s 0 then (WSA_ERR_RESPUNKNOWN E, sz, w2)
          else (0, double_to_int32 temp, w2)))"

definition wsa_sweep_entry_copy ::
  "'i wsa_lib \<Rightarrow> wsa_errors \<Rightarrow> wsa_device \<Rightarrow> int32_t \<Rightarrow> 'i world \<Rightarrow> int16_t \<times> 'i world" where
  "wsa_sweep_entry_copy X E dev entry_id w =
     (let sz = (0 :: int32_t) in
      if entry_id <s 0 \<or> sz <s entry_id then (WSA_ERR_SWEEPIDOOB E, w)
      else (case wsa_get_sweep_entry_size X E dev sz w of (result, sz, w1) \<Rightarrow>
        if result <s 0 then (result, w1)
        else if sz = 0 then (WSA_ERR_SWEEPLISTEMPTY E, w1)
        else wsa_send_command X dev (''SWEEP:ENTRY:COPY '' @ fmt_u entry_id @ nl) w1))"

definition wsa_sweep_start ::
  "'i wsa_lib \<Rightarrow> wsa_errors \<Rightarrow> wsa_device \<Rightarrow> 'i world \<Rightarrow> int16_t \<times> 'i world" where
  "wsa_sweep_start X E dev w =
     (case wsa_get_sweep_status X E dev (uninit w) w of (result, status_buf, w1) \<Rightarrow>
        if result <s 0 then (result, w1)
        else if status_buf = ''RUNNING'' then (WSA_ERR_SWEEPALREADYRUNNING E, w1)
        else (case wsa_get_sweep_entry_size X E dev 0 w1 of (result, sz, w2) \<Rightarrow>
          if result <s 0 then (result, w2)
          else if sz \<le>s 0 then (WSA_ERR_SWEEPLISTEMPTY E, w2)
          else (case wsa_send_command X dev (''SWEEP:LIST:START'' @ nl) w2 of
            (result, w3) \<Rightarrow> if result <s 0 then (result, w3) else (0, w3))))"

definition wsa_flush_data ::
  "'i wsa_lib \<Rightarrow> wsa_errors \<Rightarrow> wsa_device \<Rightarrow> 'i world \<Rightarrow> int16_t \<times> 'i world" where
  "wsa_flush_data X E dev w =
     (case wsa_get_sweep_status X E dev (uninit w) w of (result, status_buf, w1) \<Rightarrow>
        if result <s 0 then (result, w1)
        else if status_buf = ''RUNNING'' then (WSA_ERR_SWEEPALREADYRUNNING E, w1)
        else (case wsa_send_command X dev (''SWEEP:FLUSH'' @ nl) w1 of
          (result, w2) \<Rightarrow> if result <s 0 then (result, w2) else (0, w2)))"


text \<open>
  The loop of \<open>wsa_sweep_stop\<close>: \<open>while (clock() <= end_time)\<close> around one read of
  the data channel whose result is stored in \<open>result\<close> and not looked at. Whether the
  loop ends depends on the clock, so it is a partial function: \<open>None\<close> is the loop
  that never ends.
\<close>

partial_function (option) wsa_sweep_stop_loop ::
  "'i wsa_lib \<Rightarrow> wsa_device \<Rightarrow> int \<Rightarrow> 'i world \<Rightarrow> 'i world option" where
  "wsa_sweep_stop_loop X dev end_time w =
     (case clock X w of (now, w1) \<Rightarrow>
        if now \<le> end_time
        then (case wsa_sock_recv_data X dev w1 of (result, w2) \<Rightarrow>
                wsa_sweep_stop_loop X dev end_time w2)
        else Some w1)"

text \<open>
  \<open>wsa_sweep_stop\<close>. The result is \<open>None\<close> when the call never returns, and
  \<open>Some (Inl Signed_overflow)\<close> when \<open>5000 + start_time\<close> exceeds the largest
  \<open>clock_t\<close>, where the behaviour of the addition is undefined; otherwise it is
  \<open>Some (Inr (result, w))\<close>, the value returned and the world left behind.
\<close>

datatype c_error = Signed_overflow

definition wsa_sweep_stop ::
  "'i wsa_lib \<Rightarrow> wsa_errors \<Rightarrow> wsa_device \<Rightarrow> 'i world
     \<Rightarrow> (c_error + int16_t \<times> 'i world) option" where
  "wsa_sweep_stop X E dev w =
     (case wsa_send_command X dev (''SWEEP:LIST:STOP'' @ nl) w of (result, w1) \<Rightarrow>
        if result <s 0 then Some (Inr (result, w1))
        else (case wsa_flush_data X E dev w1 of (result, w2) \<Rightarrow>
          if result <s 0 then Some (Inr (result, w2))
          else (case clock X w2 of (start_time, w3) \<Rightarrow>
            if 5000 + start_time > clock_t_max X then Some (Inl Signed_overflow)
            else let end_time = 5000 + start_time in
            (case wsa_sweep_stop_loop X dev end_time w3 of
               None \<Rightarrow> None
             | Some w4 \<Rightarrow> Some (Inr (0, w4))))))"

text \<open>
  One round of that loop, as a function on the world: the reading of the clock, then the
  read of the data channel. It serves to say where the readings of the clock come from.
\<close>

definition wsa_sweep_stop_drain_step ::
  "'i wsa_lib \<Rightarrow> wsa_device \<Rightarrow> 'i world \<Rightarrow> 'i world" where
  "wsa_sweep_stop_drain_step X dev w = snd (wsa_sock_recv_data X dev (snd (clock X w)))"

text \<open>
  Modelled from the spec: \<open>struct wsa_sweep_list\<close> is declared in no header of the
  repository. Its fields are those of a sweep entry in the specification, under the names
  that \<open>wsa_sweep_entry_read\<close> assigns them by, each with the type of the cast in its
  assignment. \<open>trigger_enable\<close> is only ever assigned 0 or 1.
\<close>

record wsa_sweep_list =
  start_freq :: int64_t
  stop_freq :: int64_t
  fstep :: int64_t
  fshift :: real
  decimation_rate :: int32_t
  ant_port :: int32_t
  gain_rf :: wsa_gain
  gain_if :: int32_t
  samples_per_packet :: int16_t
  packets_per_block :: int32_t
  dwell_seconds :: int32_t
  dwell_microseconds :: int32_t
  trigger_enable :: int32_t
  trigger_start_freq :: int64_t
  trigger_stop_freq :: int64_t
  trigger_amplitude :: int32_t

text \<open>\<open>(enum wsa_gain) NULL\<close> is the value 0.\<close>

definition gain_rf_strtonum :: "string \<Rightarrow> wsa_gain" where
  "gain_rf_strtonum str =
     (if strstr str ''HIGH'' then WSA_GAIN_HIGH
      else if strstr str ''MED'' then WSA_GAIN_MED
      else if strstr str ''VLOW'' then WSA_GAIN_VLOW
      else if strstr str ''LOW'' then WSA_GAIN_LOW
      else 0)"

text \<open>
  The two statements that \<open>wsa_sweep_entry_read\<close> repeats for each numeric field:
  \<open>strtok_result = strtok(NULL, ","); to_double(strtok_result, &temp)\<close>, and the same
  with \<open>strtok(query.output, ",")\<close> for the first field.
\<close>

definition next_double ::
  "'i wsa_lib \<Rightarrow> 'i world \<Rightarrow> (int16_t \<times> double) \<times> 'i world" where
  "next_double X w = (case strtok_next w of (strtok_result, w1) \<Rightarrow> to_double X strtok_result w1)"

definition first_double ::
  "'i wsa_lib \<Rightarrow> string \<Rightarrow> 'i world \<Rightarrow> (int16_t \<times> double) \<times> 'i world" where
  "first_double X s w = (case strtok_first s w of (strtok_result, w1) \<Rightarrow> to_double X strtok_result w1)"

text \<open>
  \<open>wsa_sweep_entry_read\<close>. The structure \<open>sweep_list\<close> is written field by field, so
  a failure part of the way leaves the fields stored so far. The result \<open>None\<close> is
  the call of \<open>strstr\<close> on a null pointer, when the record has no token left for the RF
  gain or for the trigger type.
\<close>

definition wsa_sweep_entry_read ::
  "'i wsa_lib \<Rightarrow> wsa_errors \<Rightarrow> wsa_device \<Rightarrow> int32_t \<Rightarrow> wsa_sweep_list \<Rightarrow> 'i world
     \<Rightarrow> (int16_t \<times> wsa_sweep_list \<times> 'i world) option" where
  "wsa_sweep_entry_read X E dev entry_id sweep_list w =
     (if entry_id <s 0 then Some (WSA_ERR_INVNUMBER E, sweep_list, w)
      else case wsa_send_query X dev (''SWEEP:ENTRY:READ? '' @ fmt_d entry_id @ nl) w of (query, w) \<Rightarrow>
      if status query \<le>s 0 then Some (ucast (status query), sweep_list, w)
      else case first_double X (output query) w of ((r, temp), w) \<Rightarrow>
      if r <s 0 then Some (WSA_ERR_RESPUNKNOWN E, sweep_list, w) else
      let sweep_list = sweep_list\<lparr>start_freq := double_to_int64 temp\<rparr> in
      case next_double X w of ((r, temp), w) \<Rightarrow>
      if r <s 0 then Some (WSA_ERR_RESPUNKNOWN E, sweep_list, w) else
      let sweep_list = sweep_list\<lparr>stop_freq := double_to_int64 temp\<rparr> in
      case next_double X w of ((r, temp), w) \<Rightarrow>
      if r <s 0 then Some (WSA_ERR_RESPUNKNOWN E, sweep_list, w) else
      let sweep_list = sweep_list\<lparr>fstep := double_to_int64 temp\<rparr> in
      case next_double X w of ((r, temp), w) \<Rightarrow>
      if r <s 0 then Some (WSA_ERR_RESPUNKNOWN E, sweep_list, w) else
      let sweep_list = sweep_list\<lparr>fshift := lib_to_float X temp\<rparr> in
      case next_double X w of ((r, temp), w) \<Rightarrow>
      if r <s 0 then Some (WSA_ERR_RESPUNKNOWN E, sweep_list, w) else
      let sweep_list = sweep_list\<lparr>decimation_rate := double_to_int32 temp\<rparr> in
      case next_double X w of ((r, temp), w) \<Rightarrow>
      if r <s 0 then Some (WSA_ERR_RESPUNKNOWN E, sweep_list, w) else
      let sweep_list = sweep_list\<lparr>ant_port := double_to_int32 temp\<rparr> in
      case strtok_next w of (strtok_result, w) \<Rightarrow>
      case strtok_result of None \<Rightarrow> None | Some str \<Rightarrow>
      let sweep_list = sweep_list\<lparr>gain_rf := gain_rf_strtonum str\<rparr> in
      case next_double X w of ((r, temp), w) \<Rightarrow>
      if r <s 0 then Some (WSA_ERR_RESPUNKNOWN E, sweep_list, w) else
      let sweep_list = sweep_list\<lparr>gain_if := double_to_int32 temp\<rparr> in
      case next_double X w of ((r, temp), w) \<Rightarrow>
      if r <s 0 then Some (WSA_ERR_RESPUNKNOWN E, sweep_list, w) else
      let sweep_list = sweep_list\<lparr>samples_per_packet := double_to_int16 temp\<rparr> in
      case next_double X w of ((r, temp), w) \<Rightarrow>
      if r <s 0 then Some (WSA_ERR_RESPUNKNOWN E, sweep_list, w) else
      let sweep_list = sweep_list\<lparr>packets_per_block := double_to_int32 temp\<rparr> in
      case next_double X w of ((r, temp), w) \<Rightarrow>
      if r <s 0 then Some (WSA_ERR_RESPUNKNOWN E, sweep_list, w) else
      let sweep_list = sweep_list\<lparr>dwell_seconds := double_to_int32 temp\<rparr> in
      case next_double X w of ((r, temp), w) \<Rightarrow>
      if r <s 0 then Some (WSA_ERR_RESPUNKNOWN E, sweep_list, w) else
      let sweep_list = sweep_list\<lparr>dwell_microseconds := double_to_int32 temp\<rparr> in
      case strtok_next w of (strtok_result, w) \<Rightarrow>
      case strtok_result of None \<Rightarrow> None | Some str \<Rightarrow>
      if strstr str ''LEVEL'' then
        let sweep_list = sweep_list\<lparr>trigger_enable := 1\<rparr> in
        case next_double X w of ((r, temp), w) \<Rightarrow>
        if r <s 0 then Some (WSA_ERR_RESPUNKNOWN E, sweep_list, w) else
        let sweep_list = sweep_list\<lparr>trigger_start_freq := double_to_int64 temp\<rparr> in
        case next_double X w of ((r, temp), w) \<Rightarrow>
        if r <s 0 then Some (WSA_ERR_RESPUNKNOWN E, sweep_list, w) else
        let sweep_list = sweep_list\<lparr>trigger_stop_freq := double_to_int64 temp\<rparr> in
        case next_double X w of ((r, temp), w) \<Rightarrow>
        if r <s 0 then Some (WSA_ERR_RESPUNKNOWN E, sweep_list, w) else
        let sweep_list = sweep_list\<lparr>trigger_amplitude := double_to_int32 temp\<rparr> in
        Some (0, sweep_list, w)
      else if strstr str ''NONE'' then
        Some (0, sweep_list\<lparr>trigger_enable := 0\<rparr>, w)
      else Some (0, sweep_list, w))"

section \<open>The other getters that query the instrument\<close>

text \<open>
  The remaining functions of the API source that call \<open>wsa_send_query\<close>, in the order
  of the source. Where a function has several output parameters, the model takes and
  returns them as a tuple, in the order of the parameters.
\<close>

definition wsa_system_request_acquisition_access ::
  "'i wsa_lib \<Rightarrow> wsa_device \<Rightarrow> int16_t \<Rightarrow> 'i world \<Rightarrow> int16_t \<times> int16_t \<times> 'i world" where
  "wsa_system_request_acquisition_access X dev status_out w =
     (case wsa_send_query X dev (''SYSTem:LOCK:REQuest? ACQuisition'' @ nl) w of (query, w1) \<Rightarrow>
        if status query \<le>s 0 then (ucast (status query), status_out, w1)
        else if output query = ''1'' then (0, 1, w1)
        else if output query = ''0'' then (0, 0, w1)
        else (0, status_out, w1))"

definition wsa_system_read_status ::
  "'i wsa_lib \<Rightarrow> wsa_device \<Rightarrow> int16_t \<Rightarrow> 'i world \<Rightarrow> int16_t \<times> int16_t \<times> 'i world" where
  "wsa_system_read_status X dev status_out w =
     (case wsa_send_query X dev ('':SYSTem:LOCK:HAVE? ACQuisition'' @ nl) w of (query, w1) \<Rightarrow>
        if status query \<le>s 0 then (ucast (status query), status_out, w1)
        else if output query = ''1'' then (0, 1, w1)
        else if output query = ''0'' then (0, 0, w1)
        else (0, status_out, w1))"

definition wsa_get_samples_per_packet ::
  "'i wsa_lib \<Rightarrow> wsa_errors \<Rightarrow> wsa_limits \<Rightarrow> wsa_device \<Rightarrow> int32_t \<Rightarrow> 'i world
     \<Rightarrow> int16_t \<times> int32_t \<times> 'i world" where
  "wsa_get_samples_per_packet X E L device spp w =
     (case wsa_send_query X device (''TRACE:SPPACKET?'' @ nl) w of (query, w1) \<Rightarrow>
        if status query \<le>s 0 then (ucast (status query), spp, w1)
        else (case to_int X (Some (output query)) w1 of ((r, temp), w2) \<Rightarrow>
          if r <s 0 then (WSA_ERR_RESPUNKNOWN E, spp, w2)
          else if temp < WSA4000_MIN_SAMPLES_PER_PACKET L \<or> temp > WSA4000_MAX_SAMPLES_PER_PACKET L
            then (WSA_ERR_RESPUNKNOWN E, spp, w2)
          else (0, word_of_int temp, w2)))"

definition wsa_get_packets_per_block ::
  "'i wsa_lib \<Rightarrow> wsa_errors \<Rightarrow> wsa_device \<Rightarrow> int32_t \<Rightarrow> 'i world
     \<Rightarrow> int16_t \<times> int32_t \<times> 'i world" where
  "wsa_get_packets_per_block X E device ppb w =
     (case wsa_send_query X device (''TRACE:BLOCK:PACKETS?'' @ nl) w of (query, w1) \<Rightarrow>
        if status query \<le>s 0 then (ucast (status query), ppb, w1)
        else (case to_int X (Some (output query)) w1 of ((r, temp), w2) \<Rightarrow>
          if r <s 0 then (WSA_ERR_RESPUNKNOWN E, ppb, w2)
          else (0, word_of_int temp, w2)))"

definition wsa_get_freq_shift ::
  "'i wsa_lib \<Rightarrow> wsa_errors \<Rightarrow> wsa_device \<Rightarrow> real \<Rightarrow> 'i world
     \<Rightarrow> int16_t \<times> real \<times> 'i world" where
  "wsa_get_freq_shift X E dev fshift_out w =
     (let bw_range = real (unat (inst_bw (descr dev))) in
      case wsa_send_query X dev (''FREQ:SHIFT?'' @ nl) w of (query, w1) \<Rightarrow>
        if status query \<le>s 0 then (ucast (status query), fshift_out, w1)
        else (case to_double X (Some (output query)) w1 of ((r, temp), w2) \<Rightarrow>
          if r <s 0 then (WSA_ERR_RESPUNKNOWN E, fshift_out, w2)
          else if temp < - bw_range \<or> temp > bw_range then (WSA_ERR_RESPUNKNOWN E, fshift_out, w2)
          else (0, lib_to_float X temp, w2)))"

definition wsa_get_gain_if ::
  "'i wsa_lib \<Rightarrow> wsa_errors \<Rightarrow> wsa_device \<Rightarrow> int32_t \<Rightarrow> 'i world
     \<Rightarrow> int16_t \<times> int32_t \<times> 'i world" where
  "wsa_get_gain_if X E dev gain w =
     (if rfe_name (descr dev) = WSA_RFE0440 then (WSA_ERR_INVRFESETTING E, gain, w)
      else case wsa_send_query X dev (''INPUT:GAIN:IF?'' @ nl) w of (query, w1) \<Rightarrow>
        if status query \<le>s 0 then (ucast (status query), gain, w1)
        else (case to_int X (Some (output query)) w1 of ((r, temp), w2) \<Rightarrow>
          if r <s 0 then (WSA_ERR_RESPUNKNOWN E, gain, w2)
          else if temp < sint (min_if_gain (descr dev)) \<or> temp > sint (max_if_gain (descr dev))
            then (WSA_ERR_RESPUNKNOWN E, gain, w2)
          else (0, word_of_int temp, w2)))"

definition wsa_get_gain_rf ::
  "'i wsa_lib \<Rightarrow> wsa_device \<Rightarrow> wsa_gain \<Rightarrow> 'i world \<Rightarrow> int16_t \<times> wsa_gain \<times> 'i world" where
  "wsa_get_gain_rf X dev gain w =
     (case wsa_send_query X dev (''INPUT:GAIN:RF?'' @ nl) w of (query, w1) \<Rightarrow>
        if status query \<le>s 0 then (ucast (status query), gain, w1)
        else (0, gain_rf_strtonum (output query), w1))"

definition wsa_get_antenna ::
  "'i wsa_lib \<Rightarrow> wsa_errors \<Rightarrow> wsa_device \<Rightarrow> int32_t \<Rightarrow> 'i world
     \<Rightarrow> int16_t \<times> int32_t \<times> 'i world" where
  "wsa_get_antenna X E dev port_num w =
     (if rfe_name (descr dev) = WSA_RFE0440 then (WSA_ERR_INVRFESETTING E, port_num, w)
      else case wsa_send_query X dev (''INPUT:ANTENNA?'' @ nl) w of (query, w1) \<Rightarrow>
        if status query \<le>s 0 then (ucast (status query), port_num, w1)
        else (case to_int X (Some (output query)) w1 of ((r, temp), w2) \<Rightarrow>
          if r <s 0 then (WSA_ERR_RESPUNKNOWN E, port_num, w2)
          else if temp < 1 \<or> temp > WSA_RFE0560_MAX_ANT_PORT
            then (WSA_ERR_RESPUNKNOWN E, port_num, w2)
          else (0, word_of_int temp, w2)))"

text \<open>
  \<open>*mode = (int16_t) temp\<close> stores into an \<open>int32_t\<close>: the value is narrowed to 16
  bits and then sign-extended (\<open>scast\<close>). The same holds in \<open>wsa_get_trigger_enable\<close>.
\<close>

definition wsa_get_bpf_mode ::
  "'i wsa_lib \<Rightarrow> wsa_errors \<Rightarrow> wsa_device \<Rightarrow> int32_t \<Rightarrow> 'i world
     \<Rightarrow> int16_t \<times> int32_t \<times> 'i world" where
  "wsa_get_bpf_mode X E dev mode w =
     (if rfe_name (descr dev) = WSA_RFE0440 then (WSA_ERR_INVRFESETTING E, mode, w)
      else case wsa_send_query X dev (''INP:FILT:PRES?'' @ nl) w of (query, w1) \<Rightarrow>
        if status query \<le>s 0 then (ucast (status query), mode, w1)
        else (case to_int X (Some (output query)) w1 of ((r, temp), w2) \<Rightarrow>
          if r <s 0 then (WSA_ERR_RESPUNKNOWN E, mode, w2)
          else if temp < 0 \<or> temp > 1 then (WSA_ERR_RESPUNKNOWN E, mode, w2)
          else (0, scast (word_of_int temp :: int16_t), w2)))"

text \<open>\<open>wsa_get_fw_ver\<close> has no output parameter; it prints five characters of the reply.\<close>

definition wsa_get_fw_ver ::
  "'i wsa_lib \<Rightarrow> wsa_errors \<Rightarrow> wsa_device \<Rightarrow> 'i world \<Rightarrow> int16_t \<times> 'i world" where
  "wsa_get_fw_ver X E dev w =
     (if rfe_name (descr dev) = WSA_RFE0440 then (WSA_ERR_INVRFESETTING E, w)
      else case wsa_send_query X dev (''*IDN?'' @ nl) w of (query, w1) \<Rightarrow>
        if status query \<le>s 0 then (ucast (status query), w1)
        else (0, w1))"

definition wsa_get_trigger_level ::
  "'i wsa_lib \<Rightarrow> wsa_errors \<Rightarrow> wsa_device \<Rightarrow> int64_t \<times> int64_t \<times> int32_t \<Rightarrow> 'i world
     \<Rightarrow> int16_t \<times> (int64_t \<times> int64_t \<times> int32_t) \<times> 'i world" where
  "wsa_get_trigger_level X E dev outs w =
     (case outs of (start_freq_out, stop_freq_out, amplitude_out) \<Rightarrow>
      case wsa_send_query X dev ('':TRIG:LEVEL?'' @ nl) w of (query, w) \<Rightarrow>
      if status query \<le>s 0 then (ucast (status query), (start_freq_out, stop_freq_out, amplitude_out), w)
      else case first_double X (output query) w of ((r, temp), w) \<Rightarrow>
      if r <s 0 then (WSA_ERR_RESPUNKNOWN E, (start_freq_out, stop_freq_out, amplitude_out), w)
      else if temp < real (unat (min_tune_freq (descr dev)))
            \<or> temp > real (unat (max_tune_freq (descr dev)))
        then (WSA_ERR_RESPUNKNOWN E, (start_freq_out, stop_freq_out, amplitude_out), w)
      else let start_freq_out = double_to_int64 temp in
      case next_double X w of ((r, temp), w) \<Rightarrow>
      if r <s 0 then (WSA_ERR_RESPUNKNOWN E, (start_freq_out, stop_freq_out, amplitude_out), w)
      else if temp < real (unat (min_tune_freq (descr dev)))
            \<or> temp > real (unat (max_tune_freq (descr dev)))
        then (WSA_ERR_RESPUNKNOWN E, (start_freq_out, stop_freq_out, amplitude_out), w)
      else let stop_freq_out = double_to_int64 temp in
      case next_double X w of ((r, temp), w) \<Rightarrow>
      if r <s 0 then (WSA_ERR_RESPUNKNOWN E, (start_freq_out, stop_freq_out, amplitude_out), w)
      else (0, (start_freq_out, stop_freq_out, double_to_int32 temp), w))"

definition wsa_get_trigger_enable ::
  "'i wsa_lib \<Rightarrow> wsa_errors \<Rightarrow> wsa_device \<Rightarrow> int32_t \<Rightarrow> 'i world
     \<Rightarrow> int16_t \<times> int32_t \<times> 'i world" where
  "wsa_get_trigger_enable X E dev enable w =
     (case wsa_send_query X dev ('':TRIG:ENABLE?'' @ nl) w of (query, w1) \<Rightarrow>
        if status query \<le>s 0 then (ucast (status query), enable, w1)
        else (case to_int X (Some (output query)) w1 of ((r, temp), w2) \<Rightarrow>
          if r <s 0 then (WSA_ERR_RESPUNKNOWN E, enable, w2)
          else if temp < 0 \<or> temp > 1 then (WSA_ERR_RESPUNKNOWN E, enable, w2)
          else (0, scast (word_of_int temp :: int16_t), w2)))"

definition wsa_get_reference_pll ::
  "'i wsa_lib \<Rightarrow> wsa_errors \<Rightarrow> wsa_device \<Rightarrow> string \<Rightarrow> 'i world
     \<Rightarrow> int16_t \<times> string \<times> 'i world" where
  "wsa_get_reference_pll X E dev pll_ref w =
     (if rfe_name (descr dev) \<noteq> WSA_RFE0560 then (WSA_ERR_INVRFESETTING E, pll_ref, w)
      else case wsa_send_query X dev (''SOURCE:REFERENCE:PLL?'' @ nl) w of (query, w1) \<Rightarrow>
        if status query \<le>s 0 then (ucast (status query), pll_ref, w1)
        else (0, output query, w1))"

definition wsa_get_lock_ref_pll ::
  "'i wsa_lib \<Rightarrow> wsa_errors \<Rightarrow> wsa_device \<Rightarrow> int32_t \<Rightarrow> 'i world
     \<Rightarrow> int16_t \<times> int32_t \<times> 'i world" where
  "wsa_get_lock_ref_pll X E dev lock_ref w =
     (case wsa_send_query X dev (''LOCK:REFerence?'' @ nl) w of (query, w1) \<Rightarrow>
        if status query \<le>s 0 then (ucast (status query), lock_ref, w1)
        else (case to_double X (Some (output query)) w1 of ((r, temp), w2) \<Rightarrow>
          if r <s 0 then (WSA_ERR_RESPUNKNOWN E, lock_ref, w2)
          else (0, double_to_int32 temp, w2)))"

definition wsa_get_sweep_antenna ::
  "'i wsa_lib \<Rightarrow> wsa_errors \<Rightarrow> wsa_device \<Rightarrow> int32_t \<Rightarrow> 'i world
     \<Rightarrow> int16_t \<times> int32_t \<times> 'i world" where
  "wsa_get_sweep_antenna X E dev port_num w =
     (if rfe_name (descr dev) = WSA_RFE0440 then (WSA_ERR_INVRFESETTING E, port_num, w)
      else case wsa_send_query X dev (''SWEEP:ENTRY:ANTENNA?'' @ nl) w of (query, w1) \<Rightarrow>
        if status query \<le>s 0 then (ucast (status query), port_num, w1)
        else (case to_int X (Some (output query)) w1 of ((r, temp), w2) \<Rightarrow>
          if r <s 0 then (WSA_ERR_RESPUNKNOWN E, port_num, w2)
          else if temp < 1 \<or> temp > WSA_RFE0560_MAX_ANT_PORT
            then (WSA_ERR_RESPUNKNOWN E, port_num, w2)
          else (0, word_of_int temp, w2)))"

definition wsa_get_sweep_gain_if ::
  "'i wsa_lib \<Rightarrow> wsa_errors \<Rightarrow> wsa_device \<Rightarrow> int32_t \<Rightarrow> 'i world
     \<Rightarrow> int16_t \<times> int32_t \<times> 'i world" where
  "wsa_get_sweep_gain_if X E dev gain w =
     (if rfe_name (descr dev) = WSA_RFE0440 then (WSA_ERR_INVRFESETTING E, gain, w)
      else case wsa_send_query X dev (''SWEEP:ENTRY:GAIN:IF?'' @ nl) w of (query, w1) \<Rightarrow>
        if status query \<le>s 0 then (ucast (status query), gain, w1)
        else (case to_int X (Some (output query)) w1 of ((r, temp), w2) \<Rightarrow>
          if r <s 0 then (WSA_ERR_RESPUNKNOWN E, gain, w2)
          else if temp < sint (min_if_gain (descr dev)) \<or> temp > sint (max_if_gain (descr dev))
            then (WSA_ERR_RESPUNKNOWN E, gain, w2)
          else (0, word_of_int temp, w2)))"

definition wsa_get_sweep_gain_rf ::
  "'i wsa_lib \<Rightarrow> wsa_device \<Rightarrow> wsa_gain \<Rightarrow> 'i world \<Rightarrow> int16_t \<times> wsa_gain \<times> 'i world" where
  "wsa_get_sweep_gain_rf X dev gain w =
     (case wsa_send_query X dev (''SWEEP:ENTRY:GAIN:RF?'' @ nl) w of (query, w1) \<Rightarrow>
        if status query \<le>s 0 then (ucast (status query), gain, w1)
        else (0, gain_rf_strtonum (output query), w1))"

definition wsa_get_sweep_samples_per_packet ::
  "'i wsa_lib \<Rightarrow> wsa_errors \<Rightarrow> wsa_limits \<Rightarrow> wsa_device \<Rightarrow> int32_t \<Rightarrow> 'i world
     \<Rightarrow> int16_t \<times> int32_t \<times> 'i world" where
  "wsa_get_sweep_samples_per_packet X E L device spp w =
     (case wsa_send_query X device (''SWEEP:ENTRY:SPPACKET?'' @ nl) w of (query, w1) \<Rightarrow>
        if status query \<le>s 0 then (ucast (status query), spp, w1)
        else (case to_int X (Some (output query)) w1 of ((r, temp), w2) \<Rightarrow>
          if r <s 0 then (WSA_ERR_RESPUNKNOWN E, spp, w2)
          else if temp < WSA4000_MIN_SAMPLES_PER_PACKET L \<or> temp > WSA4000_MAX_SAMPLES_PER_PACKET L
            then (WSA_ERR_RESPUNKNOWN E, spp, w2)
          else (0, word_of_int temp, w2)))"

definition wsa_get_sweep_packets_per_block ::
  "'i wsa_lib \<Rightarrow> wsa_errors \<Rightarrow> wsa_device \<Rightarrow> uint32_t \<Rightarrow> 'i world
     \<Rightarrow> int16_t \<times> uint32_t \<times> 'i world" where
  "wsa_get_sweep_packets_per_block X E device ppb w =
     (case wsa_send_query X device (''SWEEP:ENTRY:PPBLOCK?'' @ nl) w of (query, w1) \<Rightarrow>
        if status query \<le>s 0 then (ucast (status query), ppb, w1)
        else (case to_int X (Some (output query)) w1 of ((r, temp), w2) \<Rightarrow>
          if r <s 0 then (WSA_ERR_RESPUNKNOWN E, ppb, w2)
          else (0, word_of_int temp, w2)))"

definition wsa_get_sweep_decimation ::
  "'i wsa_lib \<Rightarrow> wsa_errors \<Rightarrow> wsa_device \<Rightarrow> int32_t \<Rightarrow> 'i world
     \<Rightarrow> int16_t \<times> int32_t \<times> 'i world" where
  "wsa_get_sweep_decimation X E device rate w =
     (case wsa_send_query X device (''SWEEP:ENTRY:DECIMATION?'' @ nl) w of (query, w1) \<Rightarrow>
        if status query \<le>s 0 then (ucast (status query), rate, w1)
        else (case to_int X (Some (output query)) w1 of ((r, temp), w2) \<Rightarrow>
          if r <s 0 then (WSA_ERR_RESPUNKNOWN E, rate, w2)
          else if (temp \<noteq> 0 \<and> temp < sint (min_decimation (descr device)))
                \<or> temp > sint (max_decimation (descr device))
            then (WSA_ERR_RESPUNKNOWN E, rate, w2)
          else (0, word_of_int temp, w2)))"

definition wsa_get_sweep_freq ::
  "'i wsa_lib \<Rightarrow> wsa_errors \<Rightarrow> wsa_device \<Rightarrow> int64_t \<times> int64_t \<Rightarrow> 'i world
     \<Rightarrow> int16_t \<times> (int64_t \<times> int64_t) \<times> 'i world" where
  "wsa_get_sweep_freq X E device outs w =
     (case outs of (start_freq_out, stop_freq_out) \<Rightarrow>
      case wsa_send_query X device (''SWEEP:ENTRY:FREQ:CENTER?'' @ nl) w of (query, w) \<Rightarrow>
      if status query \<le>s 0 then (ucast (status query), (start_freq_out, stop_freq_out), w)
      else case first_double X (output query) w of ((r, temp), w) \<Rightarrow>
      if r <s 0 then (WSA_ERR_RESPUNKNOWN E, (start_freq_out, stop_freq_out), w)
      else let start_freq_out = double_to_int64 temp in
      case next_double X w of ((r, temp), w) \<Rightarrow>
      if r <s 0 then (WSA_ERR_RESPUNKNOWN E, (start_freq_out, stop_freq_out), w)
      else (0, (start_freq_out, double_to_int64 temp), w))"

definition wsa_get_sweep_freq_shift ::
  "'i wsa_lib \<Rightarrow> wsa_errors \<Rightarrow> wsa_device \<Rightarrow> real \<Rightarrow> 'i world
     \<Rightarrow> int16_t \<times> real \<times> 'i world" where
  "wsa_get_sweep_freq_shift X E device fshift_out w =
     (case wsa_send_query X device (''SWEEP:ENTRY:FREQ:SHIFT?'' @ nl) w of (query, w1) \<Rightarrow>
        if status query \<le>s 0 then (ucast (status query), fshift_out, w1)
        else (case to_double X (Some (output query)) w1 of ((r, temp), w2) \<Rightarrow>
          if r <s 0 then (WSA_ERR_RESPUNKNOWN E, fshift_out, w2)
          else (0, lib_to_float X temp, w2)))"

definition wsa_get_sweep_freq_step ::
  "'i wsa_lib \<Rightarrow> wsa_errors \<Rightarrow> wsa_device \<Rightarrow> int64_t \<Rightarrow> 'i world
     \<Rightarrow> int16_t \<times> int64_t \<times> 'i world" where
  "wsa_get_sweep_freq_step X E device fstep_out w =
     (case wsa_send_query X device (''SWEEP:ENTRY:FREQ:STEP?'' @ nl) w of (query, w1) \<Rightarrow>
        if status query \<le>s 0 then (ucast (status query), fstep_out, w1)
        else (case to_double X (Some (output query)) w1 of ((r, temp), w2) \<Rightarrow>
          if r <s 0 then (WSA_ERR_RESPUNKNOWN E, fstep_out, w2)
          else (0, double_to_int64 temp, w2)))"

definition wsa_get_sweep_dwell ::
  "'i wsa_lib \<Rightarrow> wsa_errors \<Rightarrow> wsa_device \<Rightarrow> int32_t \<times> int32_t \<Rightarrow> 'i world
     \<Rightarrow> int16_t \<times> (int32_t \<times> int32_t) \<times> 'i world" where
  "wsa_get_sweep_dwell X E device outs w =
     (case outs of (seconds, microseconds) \<Rightarrow>
      case wsa_send_query X device (''SWEEP:ENTRY:DWELL?'' @ nl) w of (query, w) \<Rightarrow>
      if status query \<le>s 0 then (ucast (status query), (seconds, microseconds), w)
      else case first_double X (output query) w of ((r, temp), w) \<Rightarrow>
      if r <s 0 then (WSA_ERR_RESPUNKNOWN E, (seconds, microseconds), w)
      else let seconds = double_to_int32 temp in
      case next_double X w of ((r, temp), w) \<Rightarrow>
      if r <s 0 then (WSA_ERR_RESPUNKNOWN E, (seconds, microseconds), w)
      else (0, (seconds, double_to_int32 temp), w))"

definition wsa_get_sweep_trigger_level ::
  "'i wsa_lib \<Rightarrow> wsa_errors \<Rightarrow> wsa_device \<Rightarrow> int64_t \<times> int64_t \<times> int32_t \<Rightarrow> 'i world
     \<Rightarrow> int16_t \<times> (int64_t \<times> int64_t \<times> int32_t) \<times> 'i world" where
  "wsa_get_sweep_trigger_level X E dev outs w =
     (case outs of (start_freq_out, stop_freq_out, amplitude_out) \<Rightarrow>
      case wsa_send_query X dev (''SWEEP:ENTRY:TRIGGER:LEVEL?'' @ nl) w of (query, w) \<Rightarrow>
      if status query \<le>s 0 then (ucast (status query), (start_freq_out, stop_freq_out, amplitude_out), w)
      else case first_double X (output query) w of ((r, temp), w) \<Rightarrow>
      if r <s 0 then (WSA_ERR_RESPUNKNOWN E, (start_freq_out, stop_freq_out, amplitude_out), w)
      else let start_freq_out = double_to_int64 temp in
      case next_double X w of ((r, temp), w) \<Rightarrow>
      if r <s 0 then (WSA_ERR_RESPUNKNOWN E, (start_freq_out, stop_freq_out, amplitude_out), w)
      else let stop_freq_out = double_to_int64 temp in
      case next_double X w of ((r, temp), w) \<Rightarrow>
      if r <s 0 then (WSA_ERR_RESPUNKNOWN E, (start_freq_out, stop_freq_out, amplitude_out), w)
      else (0, (start_freq_out, stop_freq_out, double_to_int32 temp), w))"

definition wsa_get_sweep_trigger_type ::
  "'i wsa_lib \<Rightarrow> wsa_device \<Rightarrow> int32_t \<Rightarrow> 'i world \<Rightarrow> int16_t \<times> int32_t \<times> 'i world" where
  "wsa_get_sweep_trigger_type X dev enable w =
     (case wsa_send_query X dev (''SWEEP:ENTRY:TRIGGER:TYPE?'' @ nl) w of (query, w1) \<Rightarrow>
        if status query \<le>s 0 then (ucast (status query), enable, w1)
        else if output query = ''LEVEL'' then (0, 1, w1)
        else if output query = ''NONE'' then (0, 0, w1)
        else (0, - 1, w1))"

definition wsa_get_sweep_iteration ::
  "'i wsa_lib \<Rightarrow> wsa_errors \<Rightarrow> wsa_device \<Rightarrow> int32_t \<Rightarrow> 'i world
     \<Rightarrow> int16_t \<times> int32_t \<times> 'i world" where
  "wsa_get_sweep_iteration X E device interation w =
     (case wsa_send_query X device (''SWEEP:LIST:ITERATION?'' @ nl) w of (query, w1) \<Rightarrow>
        if status query \<le>s 0 then (ucast (status query), interation, w1)
        else (case to_double X (Some (output query)) w1 of ((r, temp), w2) \<Rightarrow>
          if r <s 0 then (WSA_ERR_RESPUNKNOWN E, interation, w2)
          else (0, double_to_int32 temp, w2)))"

text \<open>
  What it means for a getter to stop short on a failed query: \<open>res\<close> is what the getter
  returned when called in the world \<open>w\<close> with \<open>out\<close> in its output parameter, and
  \<open>command\<close> is the query it sends. If \<open>wsa_send_query\<close> stored a status of at most 0,
  the getter returned (\<open>Some\<close>) that status narrowed to \<open>int16_t\<close>, which is the status
  itself when it fits, the output parameter holds what it held, and the trace has grown
  by the query alone, with no call of \<open>to_int\<close> or \<open>to_double\<close>.
\<close>

definition short_circuits ::
  "'i wsa_lib \<Rightarrow> 'i world \<Rightarrow> string \<Rightarrow> 'o \<Rightarrow> (int16_t \<times> 'o \<times> 'i world) option \<Rightarrow> bool" where
  "short_circuits X w command out res =
     (case lib_send_query X (inst w) command of (query, i) \<Rightarrow>
        status query \<le>s 0 \<longrightarrow>
          res = Some (ucast (status query), out,
                      w\<lparr>inst := i, trace := trace w @ [Query command]\<rparr>)
          \<and> (- (2 ^ 15) \<le> sint (status query) \<longrightarrow>
                sint (ucast (status query) :: int16_t) = sint (status query)))"

section \<open>Reading a frame\<close>








section \<open>A concrete device and instrument\<close>

text \<open>
  Concrete values at which the theorems below are instantiated. The descriptor holds
  the constants that \<open>wsa_lib.h\<close> gives for a WSA4000 with the RFE0440 front end. The
  instrument state of \<open>example_lib\<close> is a clock reading that advances by 3000 ticks
  with each call of \<open>clock\<close>; every read of the data channel fails; the sweep status
  query is answered with \<open>sweep_status\<close> and every other query with \<open>reply\<close>;
  \<open>to_int\<close> and \<open>to_double\<close> convert a string of decimal digits and fail on anything
  else; \<open>clock_t\<close> has 32 bits; the rounding to single precision is taken as the
  identity, which it is on the small integers that the examples use.
\<close>

definition example_descr :: wsa_descriptor where
  "example_descr =
     \<lparr>prod_name = ''WSA4000'', prod_serial = [], prod_version = [],
      rfe_name = ''RFE0440'', rfe_version = [], fw_version = [], intf_type = ''TCPIP'',
      inst_bw = 125000000, max_sample_size = 2621440,
      max_tune_freq = 4000000000, min_tune_freq = 200000000, freq_resolution = 10000,
      max_if_gain = 0, min_if_gain = 0, min_decimation = 16, max_decimation = 1023,
      abs_max_amp = [0, - 15, 0, 13, 20]\<rparr>"

definition example_dev :: wsa_device where
  "example_dev = \<lparr>descr = example_descr, sock = \<lparr>cmd = 3, data = 4\<rparr>\<rparr>"

definition example_errors :: wsa_errors where
  "example_errors =
     \<lparr>WSA_ERR_NOTIQFRAME = - 1401, WSA_ERR_FREQOUTOFBOUND = - 1301,
      WSA_ERR_INVRFGAIN = - 1311, WSA_ERR_INVNUMBER = - 1201,
      WSA_ERR_RESPUNKNOWN = - 1103, WSA_ERR_SWEEPALREADYRUNNING = - 1501,
      WSA_ERR_SWEEPLISTEMPTY = - 1502, WSA_ERR_SWEEPIDOOB = - 1503,
      WSA_ERR_SWEEPMODEUNDEF = - 1504, WSA_ERR_INVRFESETTING = - 1321\<rparr>"

definition example_limits :: wsa_limits where
  "example_limits =
     \<lparr>WSA4000_MIN_SAMPLES_PER_PACKET = 128, WSA4000_MAX_SAMPLES_PER_PACKET = 65520\<rparr>"

definition example_descr_0560 :: wsa_descriptor where
  "example_descr_0560 =
     example_descr\<lparr>rfe_name := ''RFE0560'', max_tune_freq := 11000000000,
       min_tune_freq := 100000, freq_resolution := 100000,
       max_if_gain := 34, min_if_gain := - 10\<rparr>"

definition example_dev_0560 :: wsa_device where
  "example_dev_0560 = \<lparr>descr = example_descr_0560, sock = \<lparr>cmd = 3, data = 4\<rparr>\<rparr>"


definition example_header :: wsa_vrt_packet_header where
  "example_header =
     \<lparr>stream_id = 0x12345678, packet_size = 0, pkt_count = 0,
      time_stamp_sec = 0, time_stamp_psec = 0\<rparr>"

definition example_packet :: vrt_packet where
  "example_packet =
     \<lparr>header = \<lparr>stream_id = 0, packet_size = 0, pkt_count = 0,
                 time_stamp_sec = 0, time_stamp_psec = 0\<rparr>,
      trailer = \<lparr>valid_bits = 0\<rparr>,
      receiver = \<lparr>rec_frequency = 0, rec_gain_if = 0, rec_gain_rf = 0, rec_temperature = 0\<rparr>,
      digitizer = \<lparr>dig_bandwidth = 0, dig_reference_level = 0, dig_rf_frequency_offset = 0\<rparr>\<rparr>"

definition is_digit :: "char \<Rightarrow> bool" where
  "is_digit c = (48 \<le> (of_char c :: nat) \<and> (of_char c :: nat) \<le> 57)"

definition dec_value :: "string \<Rightarrow> nat" where
  "dec_value s = foldl (\<lambda>a c. 10 * a + (of_char c - 48)) 0 s"

definition example_lib :: "string \<Rightarrow> string \<Rightarrow> int wsa_lib" where
  "example_lib sweep_status reply =
     \<lparr>lib_send_command = (\<lambda>i c. (0, i)),
      lib_send_query = (\<lambda>i c.
         if c = ''SWEEP:LIST:STATUS?'' @ nl
         then (\<lparr>status = 7, output = sweep_status\<rparr>, i)
         else (\<lparr>status = of_nat (length reply), output = reply\<rparr>, i)),
      lib_to_int = (\<lambda>s. case s of
           None \<Rightarrow> (- 1, 0)
         | Some t \<Rightarrow> if t \<noteq> [] \<and> list_all is_digit t then (0, int (dec_value t))
                    else (- 1, 0)),
      lib_to_double = (\<lambda>s. case s of
           None \<Rightarrow> (- 1, 0)
         | Some t \<Rightarrow> if t \<noteq> [] \<and> list_all is_digit t then (0, real (dec_value t))
                    else (- 1, 0)),
      lib_sock_recv_data = (\<lambda>i. (- 1, i)),
      lib_clock = (\<lambda>i. (i, i + 3000)),
      clock_t_max = 2147483647,
      lib_to_float = (\<lambda>d. d),
      lib_read_header = (\<lambda>i. ((0, example_header), i)),
      lib_read_receiver = (\<lambda>i. ((0, receiver example_packet), i)),
      lib_read_digitizer = (\<lambda>i. ((0, digitizer example_packet), i)),
      lib_read_payload = (\<lambda>i. ((0, []), i)),
      lib_read_trailer = (\<lambda>i. ((0, trailer example_packet), i)),
      lib_decode_frame = (\<lambda>b i q n. (0, i, q))\<rparr>"

definition example_world :: "int world" where
  "example_world = \<lparr>inst = 0, trace = [], strtok_rest = [], uninit = []\<rparr>"

definition example_sweep_list :: wsa_sweep_list where
  "example_sweep_list =
     \<lparr>start_freq = 1, stop_freq = 1, fstep = 1, fshift = 1, decimation_rate = 1,
      ant_port = 1, gain_rf = 1, gain_if = 1, samples_per_packet = 1,
      packets_per_block = 1, dwell_seconds = 1, dwell_microseconds = 1,
      trigger_enable = 1, trigger_start_freq = 77, trigger_stop_freq = 88,
      trigger_amplitude = 99\<rparr>"

section \<open>Auxiliary facts\<close>

lemma uint_of_sint64:
  fixes f :: "64 word"
  shows "uint f = (if 0 \<le> sint f then sint f else sint f + 2 ^ 64)"
proof -
  have b: "- (2 ^ 63) \<le> sint f" "sint f < 2 ^ 63"
    using sint_ge [of f] sint_lt [of f] by simp_all
  have u: "uint f = sint f mod 2 ^ 64"
    by (simp add: uint_sint take_bit_eq_mod)
  show ?thesis
  proof (cases "0 \<le> sint f")
    case True
    with b have "sint f mod 2 ^ 64 = sint f" by (intro mod_pos_pos_trivial) simp_all
    with u True show ?thesis by simp
  next
    case False
    with b have "(sint f + 2 ^ 64) mod 2 ^ 64 = sint f + 2 ^ 64"
      by (intro mod_pos_pos_trivial) simp_all
    then have "sint f mod 2 ^ 64 = sint f + 2 ^ 64" by simp
    with u False show ?thesis by simp
  qed
qed


lemma next_double_token:
  "strtok_rest w = t # ts \<Longrightarrow>
   next_double X w =
     (lib_to_double X (Some t), w\<lparr>strtok_rest := ts, trace := trace w @ [To_double (Some t)]\<rparr>)"
  by (simp add: next_double_def strtok_next_def to_double_def)

lemma first_double_token:
  "tokens [] s = t # ts \<Longrightarrow>
   first_double X s w =
     (lib_to_double X (Some t), w\<lparr>strtok_rest := ts, trace := trace w @ [To_double (Some t)]\<rparr>)"
  by (simp add: first_double_def strtok_first_def strtok_next_def to_double_def)

lemma sint_ucast_status:
  fixes s :: "64 word"
  assumes "- (2 ^ 15) \<le> sint s" "sint s \<le> 0"
  shows "sint (ucast s :: 16 word) = sint s"
proof -
  have "(ucast s :: 16 word) = word_of_int (sint s)"
    by (rule bit_word_eqI) (auto simp add: bit_simps bit_sint_iff min_def simp del: of_int_sint)
  then have "sint (ucast s :: 16 word) = signed_take_bit (LENGTH(16) - 1) (sint s)"
    by (simp only: sint_sbintrunc')
  then have "sint (ucast s :: 16 word) = signed_take_bit 15 (sint s)"
    by simp
  also have "\<dots> = sint s"
    using assms by (simp add: signed_take_bit_int_eq_self)
  finally show ?thesis .
qed

lemma wsa_system_request_acquisition_access_short: "short_circuits X w (''SYSTem:LOCK:REQuest? ACQuisition'' @ nl) access
     (Some (wsa_system_request_acquisition_access X dev access w))"
  by (simp add: short_circuits_def wsa_system_request_acquisition_access_def wsa_send_query_def case_prod_beta
        sint_ucast_status word_sle_eq)

lemma wsa_system_read_status_short: "short_circuits X w ('':SYSTem:LOCK:HAVE? ACQuisition'' @ nl) claimed
     (Some (wsa_system_read_status X dev claimed w))"
  by (simp add: short_circuits_def wsa_system_read_status_def wsa_send_query_def case_prod_beta
        sint_ucast_status word_sle_eq)

lemma wsa_get_samples_per_packet_short: "short_circuits X w (''TRACE:SPPACKET?'' @ nl) spp
     (Some (wsa_get_samples_per_packet X E L dev spp w))"
  by (simp add: short_circuits_def wsa_get_samples_per_packet_def wsa_send_query_def case_prod_beta
        sint_ucast_status word_sle_eq)

lemma wsa_get_packets_per_block_short: "short_circuits X w (''TRACE:BLOCK:PACKETS?'' @ nl) ppb
     (Some (wsa_get_packets_per_block X E dev ppb w))"
  by (simp add: short_circuits_def wsa_get_packets_per_block_def wsa_send_query_def case_prod_beta
        sint_ucast_status word_sle_eq)

lemma wsa_get_decimation_short: "short_circuits X w ('':SENSE:DEC?'' @ nl) rate
     (Some (wsa_get_decimation X E dev rate w))"
  by (simp add: short_circuits_def wsa_get_decimation_def wsa_send_query_def case_prod_beta
        sint_ucast_status word_sle_eq)

lemma wsa_get_freq_short: "short_circuits X w (''FREQ:CENT?'' @ nl) cfreq
     (Some (wsa_get_freq X E dev cfreq w))"
  by (simp add: short_circuits_def wsa_get_freq_def wsa_send_query_def case_prod_beta
        sint_ucast_status word_sle_eq)

lemma wsa_get_freq_shift_short: "short_circuits X w (''FREQ:SHIFT?'' @ nl) fshift_v
     (Some (wsa_get_freq_shift X E dev fshift_v w))"
  by (simp add: short_circuits_def wsa_get_freq_shift_def wsa_send_query_def case_prod_beta
        sint_ucast_status word_sle_eq)

lemma wsa_get_gain_if_short: "rfe_name (descr dev) \<noteq> WSA_RFE0440 \<Longrightarrow> short_circuits X w (''INPUT:GAIN:IF?'' @ nl) gain_v
     (Some (wsa_get_gain_if X E dev gain_v w))"
  by (simp add: short_circuits_def wsa_get_gain_if_def wsa_send_query_def case_prod_beta
        sint_ucast_status word_sle_eq WSA_RFE0440_def WSA_RFE0560_def)

lemma wsa_get_gain_rf_short: "short_circuits X w (''INPUT:GAIN:RF?'' @ nl) rf_gain
     (Some (wsa_get_gain_rf X dev rf_gain w))"
  by (simp add: short_circuits_def wsa_get_gain_rf_def wsa_send_query_def case_prod_beta
        sint_ucast_status word_sle_eq)

lemma wsa_get_antenna_short: "rfe_name (descr dev) \<noteq> WSA_RFE0440 \<Longrightarrow> short_circuits X w (''INPUT:ANTENNA?'' @ nl) port
     (Some (wsa_get_antenna X E dev port w))"
  by (simp add: short_circuits_def wsa_get_antenna_def wsa_send_query_def case_prod_beta
        sint_ucast_status word_sle_eq WSA_RFE0440_def WSA_RFE0560_def)

lemma wsa_get_bpf_mode_short: "rfe_name (descr dev) \<noteq> WSA_RFE0440 \<Longrightarrow> short_circuits X w (''INP:FILT:PRES?'' @ nl) mode
     (Some (wsa_get_bpf_mode X E dev mode w))"
  by (simp add: short_circuits_def wsa_get_bpf_mode_def wsa_send_query_def case_prod_beta
        sint_ucast_status word_sle_eq WSA_RFE0440_def WSA_RFE0560_def)

lemma wsa_get_fw_ver_short: "rfe_name (descr dev) \<noteq> WSA_RFE0440 \<Longrightarrow> short_circuits X w (''*IDN?'' @ nl) ()
     (Some (case wsa_get_fw_ver X E dev w of (r, w') \<Rightarrow> (r, (), w')))"
  by (simp add: short_circuits_def wsa_get_fw_ver_def wsa_send_query_def case_prod_beta
        sint_ucast_status word_sle_eq WSA_RFE0440_def WSA_RFE0560_def)

lemma wsa_get_trigger_level_short: "short_circuits X w ('':TRIG:LEVEL?'' @ nl) trig
     (Some (wsa_get_trigger_level X E dev trig w))"
  by (simp add: short_circuits_def wsa_get_trigger_level_def wsa_send_query_def case_prod_beta
        sint_ucast_status word_sle_eq)

lemma wsa_get_trigger_enable_short: "short_circuits X w ('':TRIG:ENABLE?'' @ nl) enable
     (Some (wsa_get_trigger_enable X E dev enable w))"
  by (simp add: short_circuits_def wsa_get_trigger_enable_def wsa_send_query_def case_prod_beta
        sint_ucast_status word_sle_eq)

lemma wsa_get_reference_pll_short: "rfe_name (descr dev) = WSA_RFE0560 \<Longrightarrow> short_circuits X w (''SOURCE:REFERENCE:PLL?'' @ nl) pll_ref
     (Some (wsa_get_reference_pll X E dev pll_ref w))"
  by (simp add: short_circuits_def wsa_get_reference_pll_def wsa_send_query_def case_prod_beta
        sint_ucast_status word_sle_eq WSA_RFE0440_def WSA_RFE0560_def)

lemma wsa_get_lock_ref_pll_short: "short_circuits X w (''LOCK:REFerence?'' @ nl) lock_ref
     (Some (wsa_get_lock_ref_pll X E dev lock_ref w))"
  by (simp add: short_circuits_def wsa_get_lock_ref_pll_def wsa_send_query_def case_prod_beta
        sint_ucast_status word_sle_eq)

lemma wsa_get_sweep_antenna_short: "rfe_name (descr dev) \<noteq> WSA_RFE0440 \<Longrightarrow> short_circuits X w (''SWEEP:ENTRY:ANTENNA?'' @ nl) sw_port
     (Some (wsa_get_sweep_antenna X E dev sw_port w))"
  by (simp add: short_circuits_def wsa_get_sweep_antenna_def wsa_send_query_def case_prod_beta
        sint_ucast_status word_sle_eq WSA_RFE0440_def WSA_RFE0560_def)

lemma wsa_get_sweep_gain_if_short: "rfe_name (descr dev) \<noteq> WSA_RFE0440 \<Longrightarrow> short_circuits X w (''SWEEP:ENTRY:GAIN:IF?'' @ nl) sw_gain
     (Some (wsa_get_sweep_gain_if X E dev sw_gain w))"
  by (simp add: short_circuits_def wsa_get_sweep_gain_if_def wsa_send_query_def case_prod_beta
        sint_ucast_status word_sle_eq WSA_RFE0440_def WSA_RFE0560_def)

lemma wsa_get_sweep_gain_rf_short: "short_circuits X w (''SWEEP:ENTRY:GAIN:RF?'' @ nl) sw_rf_gain
     (Some (wsa_get_sweep_gain_rf X dev sw_rf_gain w))"
  by (simp add: short_circuits_def wsa_get_sweep_gain_rf_def wsa_send_query_def case_prod_beta
        sint_ucast_status word_sle_eq)

lemma wsa_get_sweep_samples_per_packet_short: "short_circuits X w (''SWEEP:ENTRY:SPPACKET?'' @ nl) sw_spp
     (Some (wsa_get_sweep_samples_per_packet X E L dev sw_spp w))"
  by (simp add: short_circuits_def wsa_get_sweep_samples_per_packet_def wsa_send_query_def case_prod_beta
        sint_ucast_status word_sle_eq)

lemma wsa_get_sweep_packets_per_block_short: "short_circuits X w (''SWEEP:ENTRY:PPBLOCK?'' @ nl) sw_ppb
     (Some (wsa_get_sweep_packets_per_block X E dev sw_ppb w))"
  by (simp add: short_circuits_def wsa_get_sweep_packets_per_block_def wsa_send_query_def case_prod_beta
        sint_ucast_status word_sle_eq)

lemma wsa_get_sweep_decimation_short: "short_circuits X w (''SWEEP:ENTRY:DECIMATION?'' @ nl) sw_rate
     (Some (wsa_get_sweep_decimation X E dev sw_rate w))"
  by (simp add: short_circuits_def wsa_get_sweep_decimation_def wsa_send_query_def case_prod_beta
        sint_ucast_status word_sle_eq)

lemma wsa_get_sweep_freq_short: "short_circuits X w (''SWEEP:ENTRY:FREQ:CENTER?'' @ nl) sw_freq
     (Some (wsa_get_sweep_freq X E dev sw_freq w))"
  by (simp add: short_circuits_def wsa_get_sweep_freq_def wsa_send_query_def case_prod_beta
        sint_ucast_status word_sle_eq)

lemma wsa_get_sweep_freq_shift_short: "short_circuits X w (''SWEEP:ENTRY:FREQ:SHIFT?'' @ nl) sw_fshift
     (Some (wsa_get_sweep_freq_shift X E dev sw_fshift w))"
  by (simp add: short_circuits_def wsa_get_sweep_freq_shift_def wsa_send_query_def case_prod_beta
        sint_ucast_status word_sle_eq)

lemma wsa_get_sweep_freq_step_short: "short_circuits X w (''SWEEP:ENTRY:FREQ:STEP?'' @ nl) sw_fstep
     (Some (wsa_get_sweep_freq_step X E dev sw_fstep w))"
  by (simp add: short_circuits_def wsa_get_sweep_freq_step_def wsa_send_query_def case_prod_beta
        sint_ucast_status word_sle_eq)

lemma wsa_get_sweep_dwell_short: "short_circuits X w (''SWEEP:ENTRY:DWELL?'' @ nl) sw_dwell
     (Some (wsa_get_sweep_dwell X E dev sw_dwell w))"
  by (simp add: short_circuits_def wsa_get_sweep_dwell_def wsa_send_query_def case_prod_beta
        sint_ucast_status word_sle_eq)

lemma wsa_get_sweep_trigger_level_short: "short_circuits X w (''SWEEP:ENTRY:TRIGGER:LEVEL?'' @ nl) sw_trig
     (Some (wsa_get_sweep_trigger_level X E dev sw_trig w))"
  by (simp add: short_circuits_def wsa_get_sweep_trigger_level_def wsa_send_query_def case_prod_beta
        sint_ucast_status word_sle_eq)

lemma wsa_get_sweep_trigger_type_short: "short_circuits X w (''SWEEP:ENTRY:TRIGGER:TYPE?'' @ nl) sw_enable
     (Some (wsa_get_sweep_trigger_type X dev sw_enable w))"
  by (simp add: short_circuits_def wsa_get_sweep_trigger_type_def wsa_send_query_def case_prod_beta
        sint_ucast_status word_sle_eq)

lemma wsa_get_sweep_iteration_short: "short_circuits X w (''SWEEP:LIST:ITERATION?'' @ nl) iteration
     (Some (wsa_get_sweep_iteration X E dev iteration w))"
  by (simp add: short_circuits_def wsa_get_sweep_iteration_def wsa_send_query_def case_prod_beta
        sint_ucast_status word_sle_eq)

lemma wsa_get_sweep_status_short: "short_circuits X w (''SWEEP:LIST:STATUS?'' @ nl) status_buf
     (Some (wsa_get_sweep_status X E dev status_buf w))"
  by (simp add: short_circuits_def wsa_get_sweep_status_def wsa_send_query_def case_prod_beta
        sint_ucast_status word_sle_eq)

lemma wsa_get_sweep_entry_size_short: "short_circuits X w (''SWEEP:ENTRY:COUNT?'' @ nl) sz
     (Some (wsa_get_sweep_entry_size X E dev sz w))"
  by (simp add: short_circuits_def wsa_get_sweep_entry_size_def wsa_send_query_def case_prod_beta
        sint_ucast_status word_sle_eq)

lemma wsa_sweep_entry_read_short: "\<not> entry_id <s 0 \<Longrightarrow> short_circuits X w (''SWEEP:ENTRY:READ? '' @ fmt_d entry_id @ nl) sl
     (wsa_sweep_entry_read X E dev entry_id sl w)"
  by (simp add: short_circuits_def wsa_sweep_entry_read_def wsa_send_query_def case_prod_beta
        sint_ucast_status word_sle_eq)

text \<open>
  The drain loop ends at the first reading of the clock beyond \<open>end_time\<close>, whatever
  the reads of the data channel returned, provided there is such a reading.
\<close>

lemma wsa_sweep_stop_loop_least:
  assumes "end_time < fst (clock X ((wsa_sweep_stop_drain_step X dev ^^ n) w))"
  shows "wsa_sweep_stop_loop X dev end_time w =
     Some (snd (clock X ((wsa_sweep_stop_drain_step X dev ^^
        (LEAST k. end_time < fst (clock X ((wsa_sweep_stop_drain_step X dev ^^ k) w)))) w)))"
  using assms
proof (induction n arbitrary: w)
  case 0
  then have "(LEAST k. end_time < fst (clock X ((wsa_sweep_stop_drain_step X dev ^^ k) w))) = 0"
    by (intro Least_eq_0) simp
  with 0 show ?case
    by (subst wsa_sweep_stop_loop.simps) (simp add: case_prod_beta)
next
  case (Suc n)
  let ?P = "\<lambda>k. end_time < fst (clock X ((wsa_sweep_stop_drain_step X dev ^^ k) w))"
  show ?case
  proof (cases "?P 0")
    case True
    then have "(LEAST k. ?P k) = 0" by (intro Least_eq_0)
    with True show ?thesis
      by (subst wsa_sweep_stop_loop.simps) (simp add: case_prod_beta)
  next
    case False
    have sw: "\<And>k. (wsa_sweep_stop_drain_step X dev ^^ Suc k) w
        = (wsa_sweep_stop_drain_step X dev ^^ k) (wsa_sweep_stop_drain_step X dev w)"
      by (simp add: funpow_swap1)
    from Suc.prems have P: "?P (Suc n)" .
    then have "end_time < fst (clock X ((wsa_sweep_stop_drain_step X dev ^^ n)
        (wsa_sweep_stop_drain_step X dev w)))"
      by (simp only: sw)
    from Suc.IH [OF this]
    have ih: "wsa_sweep_stop_loop X dev end_time (wsa_sweep_stop_drain_step X dev w) =
       Some (snd (clock X ((wsa_sweep_stop_drain_step X dev ^^ (LEAST k. ?P (Suc k)))
         (wsa_sweep_stop_drain_step X dev w))))"
      by (simp only: sw)
    have least: "(LEAST k. ?P k) = Suc (LEAST k. ?P (Suc k))"
      using P False by (rule Least_Suc)
    from False have le: "fst (clock X w) \<le> end_time" by simp
    have "wsa_sweep_stop_loop X dev end_time w
        = wsa_sweep_stop_loop X dev end_time (wsa_sweep_stop_drain_step X dev w)"
      using le by (subst wsa_sweep_stop_loop.simps)
        (simp add: case_prod_beta wsa_sweep_stop_drain_step_def)
    with ih least show ?thesis by (simp only: sw)
  qed
qed

text \<open>
  Conversely, the drain loop returns only after a reading of the clock beyond
  \<open>end_time\<close>: while every reading stays at or below it, the loop does not return.
\<close>

lemma wsa_sweep_stop_loop_never_Some:
  assumes "wsa_sweep_stop_loop X0 dev0 end_time0 w0 = Some w0'"
  shows "\<exists>n. end_time0 < fst (clock X0 ((wsa_sweep_stop_drain_step X0 dev0 ^^ n) w0))"
proof (rule wsa_sweep_stop_loop.raw_induct
    [where P = "\<lambda>X dev end_time w y.
       \<exists>n. end_time < fst (clock X ((wsa_sweep_stop_drain_step X dev ^^ n) w))", OF _ assms])
  fix loop :: "'a wsa_lib \<Rightarrow> wsa_device \<Rightarrow> int \<Rightarrow> 'a world \<Rightarrow> 'a world option"
  fix X dev end_time w w'
  assume IH: "\<And>X dev end_time w y. loop X dev end_time w = Some y \<Longrightarrow>
      \<exists>n. end_time < fst (clock X ((wsa_sweep_stop_drain_step X dev ^^ n) w))"
  assume body: "(case clock X w of (now, w1) \<Rightarrow>
        if now \<le> end_time
        then (case wsa_sock_recv_data X dev w1 of (result, w2) \<Rightarrow> loop X dev end_time w2)
        else Some w1) = Some w'"
  show "\<exists>n. end_time < fst (clock X ((wsa_sweep_stop_drain_step X dev ^^ n) w))"
  proof (cases "fst (clock X w) \<le> end_time")
    case False
    then have "end_time < fst (clock X ((wsa_sweep_stop_drain_step X dev ^^ 0) w))" by simp
    then show ?thesis by blast
  next
    case True
    with body have "loop X dev end_time (wsa_sweep_stop_drain_step X dev w) = Some w'"
      by (simp add: case_prod_beta wsa_sweep_stop_drain_step_def)
    from IH [OF this] obtain n where
      "end_time < fst (clock X ((wsa_sweep_stop_drain_step X dev ^^ n)
         (wsa_sweep_stop_drain_step X dev w)))" by blast
    then have "end_time < fst (clock X ((wsa_sweep_stop_drain_step X dev ^^ Suc n) w))"
      by (simp add: funpow_swap1)
    then show ?thesis by blast
  qed
qed

lemma wsa_sweep_stop_loop_None:
  assumes "\<And>n. fst (clock X ((wsa_sweep_stop_drain_step X dev ^^ n) w)) \<le> end_time"
  shows "wsa_sweep_stop_loop X dev end_time w = None"
proof (cases "wsa_sweep_stop_loop X dev end_time w")
  case None
  then show ?thesis .
next
  case (Some w')
  from wsa_sweep_stop_loop_never_Some [OF this] assms show ?thesis
    by (auto simp add: not_less [symmetric])
qed

lemma stuck_clock:
  "fst (clock (X\<lparr>lib_clock := (\<lambda>i. (c, i))\<rparr>) w) = c"
  by (simp add: clock_def)

section \<open>Properties\<close>




text \<open>
  C2. \<open>wsa_sweep_start\<close> is rejected with \<open>WSA_ERR_SWEEPALREADYRUNNING\<close> whenever the
  sweep status query answers \<open>RUNNING\<close>, and with \<open>WSA_ERR_SWEEPLISTEMPTY\<close> whenever
  the status is \<open>STOPPED\<close> and the size of the sweep list, as read back, is 0. In the first
  case the only thing written to the command channel is the status query, in the second
  the status query and the size query: no \<open>SWEEP:LIST:START\<close> command is written.
\<close>

theorem wsa_sweep_start_rejections:
  "(lib_send_query X (inst w) (''SWEEP:LIST:STATUS?'' @ nl) = (q, i1) \<and> 0 <s status q
      \<and> output q = ''RUNNING''
    \<longrightarrow> wsa_sweep_start X E dev w =
          (WSA_ERR_SWEEPALREADYRUNNING E,
           w\<lparr>inst := i1, trace := trace w @ [Query (''SWEEP:LIST:STATUS?'' @ nl)]\<rparr>))
   \<and> (lib_send_query X (inst w) (''SWEEP:LIST:STATUS?'' @ nl) = (q, i1) \<and> 0 <s status q
      \<and> output q = ''STOPPED''
      \<and> lib_send_query X i1 (''SWEEP:ENTRY:COUNT?'' @ nl) = (q', i2) \<and> 0 <s status q'
      \<and> lib_to_double X (Some (output q')) = (r, d) \<and> \<not> r <s 0 \<and> double_to_int32 d = 0
    \<longrightarrow> wsa_sweep_start X E dev w =
          (WSA_ERR_SWEEPLISTEMPTY E,
           w\<lparr>inst := i2,
             trace := trace w @ [Query (''SWEEP:LIST:STATUS?'' @ nl),
                                 Query (''SWEEP:ENTRY:COUNT?'' @ nl),
                                 To_double (Some (output q'))]\<rparr>))"
  by (auto simp add: wsa_sweep_start_def wsa_get_sweep_status_def wsa_get_sweep_entry_size_def
        wsa_send_query_def to_double_def word_sle_eq word_sless_alt)

theorem wsa_sweep_start_rejections_witness:
  "wsa_sweep_start (example_lib ''RUNNING'' ''3'') example_errors example_dev example_world =
     (WSA_ERR_SWEEPALREADYRUNNING example_errors,
      example_world\<lparr>inst := 0, trace := [Query (''SWEEP:LIST:STATUS?'' @ nl)]\<rparr>)
   \<and> wsa_sweep_start (example_lib ''STOPPED'' ''0'') example_errors example_dev example_world =
     (WSA_ERR_SWEEPLISTEMPTY example_errors,
      example_world\<lparr>inst := 0,
        trace := [Query (''SWEEP:LIST:STATUS?'' @ nl), Query (''SWEEP:ENTRY:COUNT?'' @ nl),
                  To_double (Some ''0'')]\<rparr>)"
proof -
  have a: "lib_send_query (example_lib ''RUNNING'' ''3'') (inst example_world)
             (''SWEEP:LIST:STATUS?'' @ nl) = (\<lparr>status = 7, output = ''RUNNING''\<rparr>, 0)
           \<and> 0 <s status \<lparr>status = 7, output = ''RUNNING''\<rparr>
           \<and> output \<lparr>status = 7, output = ''RUNNING''\<rparr> = ''RUNNING''"
    by (simp add: example_lib_def example_world_def word_sless_alt)
  have b: "lib_send_query (example_lib ''STOPPED'' ''0'') (inst example_world)
             (''SWEEP:LIST:STATUS?'' @ nl) = (\<lparr>status = 7, output = ''STOPPED''\<rparr>, 0)
           \<and> 0 <s status \<lparr>status = 7, output = ''STOPPED''\<rparr>
           \<and> output \<lparr>status = 7, output = ''STOPPED''\<rparr> = ''STOPPED''
           \<and> lib_send_query (example_lib ''STOPPED'' ''0'') 0 (''SWEEP:ENTRY:COUNT?'' @ nl)
               = (\<lparr>status = 1, output = ''0''\<rparr>, 0)
           \<and> 0 <s status \<lparr>status = 1, output = ''0''\<rparr>
           \<and> lib_to_double (example_lib ''STOPPED'' ''0'') (Some (output \<lparr>status = 1, output = ''0''\<rparr>))
               = (0, 0)
           \<and> \<not> (0 :: int16_t) <s 0 \<and> double_to_int32 0 = 0"
    by (simp add: example_lib_def example_world_def word_sless_alt is_digit_def dec_value_def
          double_to_int32_def trunc_def)
  from wsa_sweep_start_rejections [THEN conjunct1, rule_format, OF a, of example_errors example_dev]
    wsa_sweep_start_rejections [THEN conjunct2, rule_format, OF b, of example_errors example_dev]
  show ?thesis by (simp add: example_world_def)
qed

text \<open>
  C3. \<open>wsa_sweep_entry_copy\<close> should copy any entry at a position within
  \<open>[1, size]\<close>. It compares the position with \<open>size\<close> before the size of the list has
  been read, while \<open>size\<close> still holds its initial 0: position 1 is rejected with
  \<open>WSA_ERR_SWEEPIDOOB\<close> whatever the list holds, and nothing is sent to the instrument.
\<close>

theorem wsa_sweep_entry_copy_rejects_first_entry:
  "wsa_sweep_entry_copy X E dev 1 w = (WSA_ERR_SWEEPIDOOB E, w)"
  by (simp add: wsa_sweep_entry_copy_def Let_def word_sless_alt)



text \<open>
  C5 (as amended). Every function of the API source that sends a query returns at once
  when \<open>wsa_send_query\<close> stored a status of at most 0: it returns \<open>(int16_t) status\<close>,
  the low 16 bits of the 64-bit status, which is the status itself exactly when the
  status is at least \<open>-32768\<close>; it converts no text, its trace showing the query alone,
  and its output parameters hold what they held. The conjuncts follow the order of the
  source; the functions that first check the RF front end are taken on a device that
  passes the check, and \<open>wsa_sweep_entry_read\<close> with a position that is not negative,
  since otherwise no query is sent.
\<close>

theorem getters_short_circuit_on_failed_query:
  "short_circuits X w (''SYSTem:LOCK:REQuest? ACQuisition'' @ nl) access
        (Some (wsa_system_request_acquisition_access X dev access w))
   \<and> short_circuits X w ('':SYSTem:LOCK:HAVE? ACQuisition'' @ nl) claimed
        (Some (wsa_system_read_status X dev claimed w))
   \<and> short_circuits X w (''TRACE:SPPACKET?'' @ nl) spp
        (Some (wsa_get_samples_per_packet X E L dev spp w))
   \<and> short_circuits X w (''TRACE:BLOCK:PACKETS?'' @ nl) ppb
        (Some (wsa_get_packets_per_block X E dev ppb w))
   \<and> short_circuits X w ('':SENSE:DEC?'' @ nl) rate
        (Some (wsa_get_decimation X E dev rate w))
   \<and> short_circuits X w (''FREQ:CENT?'' @ nl) cfreq (Some (wsa_get_freq X E dev cfreq w))
   \<and> short_circuits X w (''FREQ:SHIFT?'' @ nl) fshift_v
        (Some (wsa_get_freq_shift X E dev fshift_v w))
   \<and> (rfe_name (descr dev) \<noteq> WSA_RFE0440 \<longrightarrow> short_circuits X w (''INPUT:GAIN:IF?'' @ nl) gain_v
        (Some (wsa_get_gain_if X E dev gain_v w)))
   \<and> short_circuits X w (''INPUT:GAIN:RF?'' @ nl) rf_gain
        (Some (wsa_get_gain_rf X dev rf_gain w))
   \<and> (rfe_name (descr dev) \<noteq> WSA_RFE0440 \<longrightarrow> short_circuits X w (''INPUT:ANTENNA?'' @ nl) port
        (Some (wsa_get_antenna X E dev port w)))
   \<and> (rfe_name (descr dev) \<noteq> WSA_RFE0440 \<longrightarrow> short_circuits X w (''INP:FILT:PRES?'' @ nl) mode
        (Some (wsa_get_bpf_mode X E dev mode w)))
   \<and> (rfe_name (descr dev) \<noteq> WSA_RFE0440 \<longrightarrow> short_circuits X w (''*IDN?'' @ nl) ()
        (Some (case wsa_get_fw_ver X E dev w of (r, w') \<Rightarrow> (r, (), w'))))
   \<and> short_circuits X w ('':TRIG:LEVEL?'' @ nl) trig
        (Some (wsa_get_trigger_level X E dev trig w))
   \<and> short_circuits X w ('':TRIG:ENABLE?'' @ nl) enable
        (Some (wsa_get_trigger_enable X E dev enable w))
   \<and> (rfe_name (descr dev) = WSA_RFE0560 \<longrightarrow> short_circuits X w (''SOURCE:REFERENCE:PLL?'' @ nl) pll_ref
        (Some (wsa_get_reference_pll X E dev pll_ref w)))
   \<and> short_circuits X w (''LOCK:REFerence?'' @ nl) lock_ref
        (Some (wsa_get_lock_ref_pll X E dev lock_ref w))
   \<and> (rfe_name (descr dev) \<noteq> WSA_RFE0440 \<longrightarrow> short_circuits X w (''SWEEP:ENTRY:ANTENNA?'' @ nl) sw_port
        (Some (wsa_get_sweep_antenna X E dev sw_port w)))
   \<and> (rfe_name (descr dev) \<noteq> WSA_RFE0440 \<longrightarrow> short_circuits X w (''SWEEP:ENTRY:GAIN:IF?'' @ nl) sw_gain
        (Some (wsa_get_sweep_gain_if X E dev sw_gain w)))
   \<and> short_circuits X w (''SWEEP:ENTRY:GAIN:RF?'' @ nl) sw_rf_gain
        (Some (wsa_get_sweep_gain_rf X dev sw_rf_gain w))
   \<and> short_circuits X w (''SWEEP:ENTRY:SPPACKET?'' @ nl) sw_spp
        (Some (wsa_get_sweep_samples_per_packet X E L dev sw_spp w))
   \<and> short_circuits X w (''SWEEP:ENTRY:PPBLOCK?'' @ nl) sw_ppb
        (Some (wsa_get_sweep_packets_per_block X E dev sw_ppb w))
   \<and> short_circuits X w (''SWEEP:ENTRY:DECIMATION?'' @ nl) sw_rate
        (Some (wsa_get_sweep_decimation X E dev sw_rate w))
   \<and> short_circuits X w (''SWEEP:ENTRY:FREQ:CENTER?'' @ nl) sw_freq
        (Some (wsa_get_sweep_freq X E dev sw_freq w))
   \<and> short_circuits X w (''SWEEP:ENTRY:FREQ:SHIFT?'' @ nl) sw_fshift
        (Some (wsa_get_sweep_freq_shift X E dev sw_fshift w))
   \<and> short_circuits X w (''SWEEP:ENTRY:FREQ:STEP?'' @ nl) sw_fstep
        (Some (wsa_get_sweep_freq_step X E dev sw_fstep w))
   \<and> short_circuits X w (''SWEEP:ENTRY:DWELL?'' @ nl) sw_dwell
        (Some (wsa_get_sweep_dwell X E dev sw_dwell w))
   \<and> short_circuits X w (''SWEEP:ENTRY:TRIGGER:LEVEL?'' @ nl) sw_trig
        (Some (wsa_get_sweep_trigger_level X E dev sw_trig w))
   \<and> short_circuits X w (''SWEEP:ENTRY:TRIGGER:TYPE?'' @ nl) sw_enable
        (Some (wsa_get_sweep_trigger_type X dev sw_enable w))
   \<and> short_circuits X w (''SWEEP:LIST:ITERATION?'' @ nl) iteration
        (Some (wsa_get_sweep_iteration X E dev iteration w))
   \<and> short_circuits X w (''SWEEP:LIST:STATUS?'' @ nl) status_buf
        (Some (wsa_get_sweep_status X E dev status_buf w))
   \<and> short_circuits X w (''SWEEP:ENTRY:COUNT?'' @ nl) sz
        (Some (wsa_get_sweep_entry_size X E dev sz w))
   \<and> (\<not> entry_id <s 0 \<longrightarrow> short_circuits X w (''SWEEP:ENTRY:READ? '' @ fmt_d entry_id @ nl) sl
        (wsa_sweep_entry_read X E dev entry_id sl w))"
  by (intro conjI impI)
    (assumption | rule wsa_system_request_acquisition_access_short
       wsa_system_read_status_short wsa_get_samples_per_packet_short
       wsa_get_packets_per_block_short wsa_get_decimation_short wsa_get_freq_short
       wsa_get_freq_shift_short wsa_get_gain_if_short wsa_get_gain_rf_short
       wsa_get_antenna_short wsa_get_bpf_mode_short wsa_get_fw_ver_short
       wsa_get_trigger_level_short wsa_get_trigger_enable_short wsa_get_reference_pll_short
       wsa_get_lock_ref_pll_short wsa_get_sweep_antenna_short wsa_get_sweep_gain_if_short
       wsa_get_sweep_gain_rf_short wsa_get_sweep_samples_per_packet_short
       wsa_get_sweep_packets_per_block_short wsa_get_sweep_decimation_short
       wsa_get_sweep_freq_short wsa_get_sweep_freq_shift_short wsa_get_sweep_freq_step_short
       wsa_get_sweep_dwell_short wsa_get_sweep_trigger_level_short
       wsa_get_sweep_trigger_type_short wsa_get_sweep_iteration_short
       wsa_get_sweep_status_short wsa_get_sweep_entry_size_short wsa_sweep_entry_read_short)+


theorem getters_short_circuit_on_failed_query_witness:
  "let X = (example_lib [] [])\<lparr>lib_send_query := (\<lambda>i c. (\<lparr>status = - 5, output = []\<rparr>, i))\<rparr> in
     wsa_system_request_acquisition_access X example_dev_0560 1 example_world =
       (- 5, 1, example_world\<lparr>inst := 0, trace := [Query (''SYSTem:LOCK:REQuest? ACQuisition'' @ nl)]\<rparr>)
     \<and> wsa_system_read_status X example_dev_0560 1 example_world =
       (- 5, 1, example_world\<lparr>inst := 0, trace := [Query ('':SYSTem:LOCK:HAVE? ACQuisition'' @ nl)]\<rparr>)
     \<and> wsa_get_samples_per_packet X example_errors example_limits example_dev_0560 1 example_world =
       (- 5, 1, example_world\<lparr>inst := 0, trace := [Query (''TRACE:SPPACKET?'' @ nl)]\<rparr>)
     \<and> wsa_get_packets_per_block X example_errors example_dev_0560 1 example_world =
       (- 5, 1, example_world\<lparr>inst := 0, trace := [Query (''TRACE:BLOCK:PACKETS?'' @ nl)]\<rparr>)
     \<and> wsa_get_decimation X example_errors example_dev_0560 1 example_world =
       (- 5, 1, example_world\<lparr>inst := 0, trace := [Query ('':SENSE:DEC?'' @ nl)]\<rparr>)
     \<and> wsa_get_freq X example_errors example_dev_0560 1 example_world =
       (- 5, 1, example_world\<lparr>inst := 0, trace := [Query (''FREQ:CENT?'' @ nl)]\<rparr>)
     \<and> wsa_get_freq_shift X example_errors example_dev_0560 1 example_world =
       (- 5, 1, example_world\<lparr>inst := 0, trace := [Query (''FREQ:SHIFT?'' @ nl)]\<rparr>)
     \<and> wsa_get_gain_if X example_errors example_dev_0560 1 example_world =
       (- 5, 1, example_world\<lparr>inst := 0, trace := [Query (''INPUT:GAIN:IF?'' @ nl)]\<rparr>)
     \<and> wsa_get_gain_rf X example_dev_0560 1 example_world =
       (- 5, 1, example_world\<lparr>inst := 0, trace := [Query (''INPUT:GAIN:RF?'' @ nl)]\<rparr>)
     \<and> wsa_get_antenna X example_errors example_dev_0560 1 example_world =
       (- 5, 1, example_world\<lparr>inst := 0, trace := [Query (''INPUT:ANTENNA?'' @ nl)]\<rparr>)
     \<and> wsa_get_bpf_mode X example_errors example_dev_0560 1 example_world =
       (- 5, 1, example_world\<lparr>inst := 0, trace := [Query (''INP:FILT:PRES?'' @ nl)]\<rparr>)
     \<and> wsa_get_fw_ver X example_errors example_dev_0560 example_world =
       (- 5, example_world\<lparr>inst := 0, trace := [Query (''*IDN?'' @ nl)]\<rparr>)
     \<and> wsa_get_trigger_level X example_errors example_dev_0560 (1, 2, 3) example_world =
       (- 5, (1, 2, 3), example_world\<lparr>inst := 0, trace := [Query ('':TRIG:LEVEL?'' @ nl)]\<rparr>)
     \<and> wsa_get_trigger_enable X example_errors example_dev_0560 1 example_world =
       (- 5, 1, example_world\<lparr>inst := 0, trace := [Query ('':TRIG:ENABLE?'' @ nl)]\<rparr>)
     \<and> wsa_get_reference_pll X example_errors example_dev_0560 ''INT'' example_world =
       (- 5, ''INT'', example_world\<lparr>inst := 0, trace := [Query (''SOURCE:REFERENCE:PLL?'' @ nl)]\<rparr>)
     \<and> wsa_get_lock_ref_pll X example_errors example_dev_0560 1 example_world =
       (- 5, 1, example_world\<lparr>inst := 0, trace := [Query (''LOCK:REFerence?'' @ nl)]\<rparr>)
     \<and> wsa_get_sweep_antenna X example_errors example_dev_0560 1 example_world =
       (- 5, 1, example_world\<lparr>inst := 0, trace := [Query (''SWEEP:ENTRY:ANTENNA?'' @ nl)]\<rparr>)
     \<and> wsa_get_sweep_gain_if X example_errors example_dev_0560 1 example_world =
       (- 5, 1, example_world\<lparr>inst := 0, trace := [Query (''SWEEP:ENTRY:GAIN:IF?'' @ nl)]\<rparr>)
     \<and> wsa_get_sweep_gain_rf X example_dev_0560 1 example_world =
       (- 5, 1, example_world\<lparr>inst := 0, trace := [Query (''SWEEP:ENTRY:GAIN:RF?'' @ nl)]\<rparr>)
     \<and> wsa_get_sweep_samples_per_packet X example_errors example_limits example_dev_0560 1 example_world =
       (- 5, 1, example_world\<lparr>inst := 0, trace := [Query (''SWEEP:ENTRY:SPPACKET?'' @ nl)]\<rparr>)
     \<and> wsa_get_sweep_packets_per_block X example_errors example_dev_0560 1 example_world =
       (- 5, 1, example_world\<lparr>inst := 0, trace := [Query (''SWEEP:ENTRY:PPBLOCK?'' @ nl)]\<rparr>)
     \<and> wsa_get_sweep_decimation X example_errors example_dev_0560 1 example_world =
       (- 5, 1, example_world\<lparr>inst := 0, trace := [Query (''SWEEP:ENTRY:DECIMATION?'' @ nl)]\<rparr>)
     \<and> wsa_get_sweep_freq X example_errors example_dev_0560 (1, 2) example_world =
       (- 5, (1, 2), example_world\<lparr>inst := 0, trace := [Query (''SWEEP:ENTRY:FREQ:CENTER?'' @ nl)]\<rparr>)
     \<and> wsa_get_sweep_freq_shift X example_errors example_dev_0560 1 example_world =
       (- 5, 1, example_world\<lparr>inst := 0, trace := [Query (''SWEEP:ENTRY:FREQ:SHIFT?'' @ nl)]\<rparr>)
     \<and> wsa_get_sweep_freq_step X example_errors example_dev_0560 1 example_world =
       (- 5, 1, example_world\<lparr>inst := 0, trace := [Query (''SWEEP:ENTRY:FREQ:STEP?'' @ nl)]\<rparr>)
     \<and> wsa_get_sweep_dwell X example_errors example_dev_0560 (1, 2) example_world =
       (- 5, (1, 2), example_world\<lparr>inst := 0, trace := [Query (''SWEEP:ENTRY:DWELL?'' @ nl)]\<rparr>)
     \<and> wsa_get_sweep_trigger_level X example_errors example_dev_0560 (1, 2, 3) example_world =
       (- 5, (1, 2, 3), example_world\<lparr>inst := 0, trace := [Query (''SWEEP:ENTRY:TRIGGER:LEVEL?'' @ nl)]\<rparr>)
     \<and> wsa_get_sweep_trigger_type X example_dev_0560 1 example_world =
       (- 5, 1, example_world\<lparr>inst := 0, trace := [Query (''SWEEP:ENTRY:TRIGGER:TYPE?'' @ nl)]\<rparr>)
     \<and> wsa_get_sweep_iteration X example_errors example_dev_0560 1 example_world =
       (- 5, 1, example_world\<lparr>inst := 0, trace := [Query (''SWEEP:LIST:ITERATION?'' @ nl)]\<rparr>)
     \<and> wsa_get_sweep_status X example_errors example_dev_0560 ''RUNNING'' example_world =
       (- 5, ''RUNNING'', example_world\<lparr>inst := 0, trace := [Query (''SWEEP:LIST:STATUS?'' @ nl)]\<rparr>)
     \<and> wsa_get_sweep_entry_size X example_errors example_dev_0560 1 example_world =
       (- 5, 1, example_world\<lparr>inst := 0, trace := [Query (''SWEEP:ENTRY:COUNT?'' @ nl)]\<rparr>)
     \<and> wsa_sweep_entry_read X example_errors example_dev_0560 1 example_sweep_list example_world =
       Some (- 5, example_sweep_list,
         example_world\<lparr>inst := 0, trace := [Query (''SWEEP:ENTRY:READ? '' @ fmt_d 1 @ nl)]\<rparr>)"
proof -
  let ?X = "(example_lib [] [])\<lparr>lib_send_query := (\<lambda>i c. (\<lparr>status = - 5, output = []\<rparr>, i))\<rparr>"
  have t: "rfe_name (descr example_dev_0560) \<noteq> WSA_RFE0440"
      "rfe_name (descr example_dev_0560) = WSA_RFE0560" "\<not> (1 :: int32_t) <s 0"
      "status (fst (lib_send_query ?X i c)) \<le>s 0" for i c
    by (simp_all add: example_dev_0560_def example_descr_0560_def example_descr_def
          WSA_RFE0440_def WSA_RFE0560_def example_lib_def word_sle_eq word_sless_alt)
  from t getters_short_circuit_on_failed_query [where X = ?X and w = example_world
      and E = example_errors and L = example_limits and dev = example_dev_0560
      and entry_id = 1 and sl = example_sweep_list and access = "1" and claimed = "1" and spp = "1" and ppb = "1" and rate = "1" and cfreq = "1" and fshift_v = "1" and gain_v = "1" and rf_gain = "1" and port = "1" and mode = "1" and trig = "(1, 2, 3)" and enable = "1" and pll_ref = "''INT''" and lock_ref = "1" and sw_port = "1" and sw_gain = "1" and sw_rf_gain = "1" and sw_spp = "1" and sw_ppb = "1" and sw_rate = "1" and sw_freq = "(1, 2)" and sw_fshift = "1" and sw_fstep = "1" and sw_dwell = "(1, 2)" and sw_trig = "(1, 2, 3)" and sw_enable = "1" and iteration = "1" and status_buf = "''RUNNING''" and sz = "1"]
  show ?thesis
    by (simp add: short_circuits_def example_lib_def example_world_def Let_def
          case_prod_beta prod_eq_iff word_sle_eq)
qed

text \<open>
  C5 as stated, that the getter returns the stored status, fails for a status below
  \<open>-32768\<close>: when \<open>wsa_send_query\<close> stores the status \<open>-65536\<close>, which is at most 0,
  \<open>wsa_get_freq\<close> returns \<open>(int16_t) -65536 = 0\<close>, the code of success, with the output
  parameter unwritten and no text converted.
\<close>

theorem wsa_get_freq_narrowed_status_counterexample:
  "lib_send_query ((example_lib [] [])\<lparr>lib_send_query :=
        (\<lambda>i c. (\<lparr>status = - 65536, output = []\<rparr>, i))\<rparr>) (inst example_world)
        (''FREQ:CENT?'' @ nl) = (\<lparr>status = - 65536, output = []\<rparr>, 0)
   \<and> (- 65536 :: int64_t) \<le>s 0
   \<and> wsa_get_freq ((example_lib [] [])\<lparr>lib_send_query :=
        (\<lambda>i c. (\<lparr>status = - 65536, output = []\<rparr>, i))\<rparr>) example_errors example_dev 1
        example_world
      = (0, 1, example_world\<lparr>inst := 0, trace := [Query (''FREQ:CENT?'' @ nl)]\<rparr>)
   \<and> sint (0 :: int16_t) \<noteq> sint (- 65536 :: int64_t)"
  by (simp add: wsa_get_freq_def wsa_send_query_def example_lib_def example_world_def
        word_sle_eq)

text \<open>
  C6. For every frequency \<open>f\<close> outside the tuning range \<open>[min_tune_freq, max_tune_freq]\<close>
  of the descriptor, every negative \<open>f\<close> included, \<open>wsa_set_freq\<close> returns
  \<open>WSA_ERR_FREQOUTOFBOUND\<close> and leaves the world as it was: nothing is written to the
  command channel. The range check compares \<open>f\<close> as an unsigned number, so a negative \<open>f\<close>
  is rejected because it reads as a number of at least \<open>2 ^ 63\<close>; this needs the upper
  bound of the descriptor to be below \<open>2 ^ 63\<close>, as all bounds in \<open>wsa_lib.h\<close> are.
\<close>

theorem wsa_set_freq_rejects_out_of_range:
  assumes neg: "WSA_ERR_FREQOUTOFBOUND E <s 0"
    and fit: "0 \<le> sint f \<or> uint (max_tune_freq (descr dev)) < 2 ^ 63"
    and out: "sint f < uint (min_tune_freq (descr dev))
              \<or> uint (max_tune_freq (descr dev)) < sint f"
  shows "wsa_set_freq X E dev f w = (WSA_ERR_FREQOUTOFBOUND E, w)"
proof -
  have b: "- (2 ^ 63) \<le> sint f"
    using sint_ge [of f] by simp
  have "f < min_tune_freq (descr dev) \<or> max_tune_freq (descr dev) < f"
  proof (cases "0 \<le> sint f")
    case True
    with out show ?thesis by (simp add: word_less_def uint_of_sint64)
  next
    case False
    with fit b show ?thesis by (simp add: word_less_def uint_of_sint64)
  qed
  then show ?thesis
    using neg by (auto simp add: wsa_set_freq_def wsa_verify_freq_def Let_def)
qed

theorem wsa_set_freq_rejects_out_of_range_witness:
  "wsa_set_freq (example_lib ''STOPPED'' ''0'') example_errors example_dev (- 1) example_world
     = (WSA_ERR_FREQOUTOFBOUND example_errors, example_world)
   \<and> wsa_set_freq (example_lib ''STOPPED'' ''0'') example_errors example_dev 199999999 example_world
     = (WSA_ERR_FREQOUTOFBOUND example_errors, example_world)
   \<and> wsa_set_freq (example_lib ''STOPPED'' ''0'') example_errors example_dev 4000000001 example_world
     = (WSA_ERR_FREQOUTOFBOUND example_errors, example_world)
   \<and> trace example_world = []"
proof -
  have neg: "WSA_ERR_FREQOUTOFBOUND example_errors <s 0"
    by (simp add: example_errors_def word_sless_alt)
  have fit: "0 \<le> sint (f :: int64_t) \<or> uint (max_tune_freq (descr example_dev)) < 2 ^ 63" for f
    by (simp add: example_dev_def example_descr_def)
  have o1: "sint (- 1 :: int64_t) < uint (min_tune_freq (descr example_dev))
            \<or> uint (max_tune_freq (descr example_dev)) < sint (- 1 :: int64_t)"
    by (simp add: example_dev_def example_descr_def)
  have o2: "sint (199999999 :: int64_t) < uint (min_tune_freq (descr example_dev))
            \<or> uint (max_tune_freq (descr example_dev)) < sint (199999999 :: int64_t)"
    by (simp add: example_dev_def example_descr_def)
  have o3: "sint (4000000001 :: int64_t) < uint (min_tune_freq (descr example_dev))
            \<or> uint (max_tune_freq (descr example_dev)) < sint (4000000001 :: int64_t)"
    by (simp add: example_dev_def example_descr_def)
  show ?thesis
    using wsa_set_freq_rejects_out_of_range [OF neg fit o1, of "example_lib ''STOPPED'' ''0''" example_world]
      wsa_set_freq_rejects_out_of_range [OF neg fit o2, of "example_lib ''STOPPED'' ''0''" example_world]
      wsa_set_freq_rejects_out_of_range [OF neg fit o3, of "example_lib ''STOPPED'' ''0''" example_world]
    by (simp add: example_world_def)
qed

text \<open>
  C7. If the record that \<open>wsa_sweep_entry_read\<close> parses carries the trigger type
  \<open>NONE\<close> (after twelve fields of which the numeric ones convert), the function returns
  0 with \<open>trigger_enable = 0\<close> and with \<open>trigger_start_freq\<close>, \<open>trigger_stop_freq\<close> and
  \<open>trigger_amplitude\<close> as they were before the call. Nothing after the trigger type is
  consumed: the tokens that follow it are still pending in \<open>strtok\<close>, and the
  conversions are those of the eleven numeric fields.
\<close>

theorem wsa_sweep_entry_read_trigger_none:
  assumes id: "\<not> entry_id <s 0"
    and q: "lib_send_query X (inst w) (''SWEEP:ENTRY:READ? '' @ fmt_d entry_id @ nl) = (q, i1)"
       "0 <s status q"
    and toks: "tokens [] (output q) =
       [t1, t2, t3, t4, t5, t6, g, t8, t9, t10, t11, t12, ''NONE''] @ rest"
    and ok: "list_all (\<lambda>t. \<not> fst (lib_to_double X (Some t)) <s 0)
       [t1, t2, t3, t4, t5, t6, t8, t9, t10, t11, t12]"
  shows "\<exists>sl' w'. wsa_sweep_entry_read X E dev entry_id sl w = Some (0, sl', w')
           \<and> trigger_enable sl' = 0
           \<and> trigger_start_freq sl' = trigger_start_freq sl
           \<and> trigger_stop_freq sl' = trigger_stop_freq sl
           \<and> trigger_amplitude sl' = trigger_amplitude sl
           \<and> strtok_rest w' = rest
           \<and> trace w' = trace w @ Query (''SWEEP:ENTRY:READ? '' @ fmt_d entry_id @ nl)
                 # map (To_double \<circ> Some) [t1, t2, t3, t4, t5, t6, t8, t9, t10, t11, t12]"
  using assms
  by (simp add: wsa_sweep_entry_read_def wsa_send_query_def next_double_token first_double_token
      strtok_next_def word_sle_eq word_sless_alt Let_def case_prod_beta)

theorem wsa_sweep_entry_read_trigger_none_witness:
  "\<exists>sl' w'. wsa_sweep_entry_read
        (example_lib ''STOPPED'' ''2400,2500,10,0,16,1,HIGH,0,1024,4,0,100,NONE,77,88'')
        example_errors example_dev 1 example_sweep_list example_world = Some (0, sl', w')
      \<and> trigger_enable sl' = 0 \<and> trigger_start_freq sl' = 77 \<and> trigger_stop_freq sl' = 88
      \<and> trigger_amplitude sl' = 99 \<and> strtok_rest w' = [''77'', ''88'']"
proof -
  let ?s = "''2400,2500,10,0,16,1,HIGH,0,1024,4,0,100,NONE,77,88''"
  let ?X = "example_lib ''STOPPED'' ?s"
  let ?q = "\<lparr>status = 50, output = ?s\<rparr>"
  have id: "\<not> (1 :: int32_t) <s 0" by (simp add: word_sless_alt)
  have q: "lib_send_query ?X (inst example_world) (''SWEEP:ENTRY:READ? '' @ fmt_d 1 @ nl) = (?q, 0)"
      "0 <s status ?q"
    by (simp_all add: example_lib_def example_world_def word_sless_alt)
  have toks: "tokens [] (output ?q) =
      [''2400'', ''2500'', ''10'', ''0'', ''16'', ''1'', ''HIGH'', ''0'', ''1024'', ''4'', ''0'',
       ''100'', ''NONE''] @ [''77'', ''88'']"
    by simp
  have ok: "list_all (\<lambda>t. \<not> fst (lib_to_double ?X (Some t)) <s 0)
      [''2400'', ''2500'', ''10'', ''0'', ''16'', ''1'', ''0'', ''1024'', ''4'', ''0'', ''100'']"
    by (simp add: example_lib_def is_digit_def word_sless_alt)
  from wsa_sweep_entry_read_trigger_none [OF id q toks ok, of example_errors example_dev example_sweep_list]
  show ?thesis by (auto simp add: example_sweep_list_def)
qed

text \<open>
  C8. For every gain value, in particular for each of the four enumerators of
  \<open>wsa_gain\<close>, \<open>wsa_get_abs_max_amp\<close> returns \<open>WSA_ERR_INVRFGAIN\<close> and leaves
  \<open>*value\<close> as it was: the guard \<open>gain < WSA_GAIN_VLOW || gain > WSA_GAIN_HIGH\<close>
  holds of every integer, so the branch that reads \<open>abs_max_amp\<close> is never taken.
\<close>

theorem wsa_get_abs_max_amp_always_invrfgain:
  "wsa_get_abs_max_amp E dev gain val = Some (WSA_ERR_INVRFGAIN E, val)"
  by (simp add: wsa_get_abs_max_amp_def WSA_GAIN_VLOW_def WSA_GAIN_HIGH_def) arith

text \<open>
  C9 (as amended). If the trigger type token of the record contains neither \<open>LEVEL\<close>
  nor \<open>NONE\<close>, \<open>wsa_sweep_entry_read\<close> still returns 0 and leaves \<open>trigger_enable\<close>
  and the three trigger fields as they were: the unrecognized token is not reported.
\<close>

theorem wsa_sweep_entry_read_trigger_unrecognized:
  assumes id: "\<not> entry_id <s 0"
    and q: "lib_send_query X (inst w) (''SWEEP:ENTRY:READ? '' @ fmt_d entry_id @ nl) = (q, i1)"
       "0 <s status q"
    and toks: "tokens [] (output q) =
       [t1, t2, t3, t4, t5, t6, g, t8, t9, t10, t11, t12, tt] @ rest"
    and ok: "list_all (\<lambda>t. \<not> fst (lib_to_double X (Some t)) <s 0)
       [t1, t2, t3, t4, t5, t6, t8, t9, t10, t11, t12]"
    and tt: "\<not> strstr tt ''LEVEL''" "\<not> strstr tt ''NONE''"
  shows "\<exists>sl' w'. wsa_sweep_entry_read X E dev entry_id sl w = Some (0, sl', w')
           \<and> trigger_enable sl' = trigger_enable sl
           \<and> trigger_start_freq sl' = trigger_start_freq sl
           \<and> trigger_stop_freq sl' = trigger_stop_freq sl
           \<and> trigger_amplitude sl' = trigger_amplitude sl"
  using assms
  by (simp add: wsa_sweep_entry_read_def wsa_send_query_def next_double_token first_double_token
      strtok_next_def word_sle_eq word_sless_alt Let_def case_prod_beta)

theorem wsa_sweep_entry_read_trigger_unrecognized_witness:
  "\<exists>sl' w'. wsa_sweep_entry_read
        (example_lib ''STOPPED'' ''2400,2500,10,0,16,1,HIGH,0,1024,4,0,100,PULSE,5,6,7'')
        example_errors example_dev 1 example_sweep_list example_world = Some (0, sl', w')
      \<and> trigger_enable sl' = 1 \<and> trigger_start_freq sl' = 77 \<and> trigger_stop_freq sl' = 88
      \<and> trigger_amplitude sl' = 99"
proof -
  let ?s = "''2400,2500,10,0,16,1,HIGH,0,1024,4,0,100,PULSE,5,6,7''"
  let ?X = "example_lib ''STOPPED'' ?s"
  let ?q = "\<lparr>status = of_nat (length ?s), output = ?s\<rparr>"
  have id: "\<not> (1 :: int32_t) <s 0" by (simp add: word_sless_alt)
  have q: "lib_send_query ?X (inst example_world) (''SWEEP:ENTRY:READ? '' @ fmt_d 1 @ nl) = (?q, 0)"
      "0 <s status ?q"
    by (simp_all add: example_lib_def example_world_def word_sless_alt)
  have toks: "tokens [] (output ?q) =
      [''2400'', ''2500'', ''10'', ''0'', ''16'', ''1'', ''HIGH'', ''0'', ''1024'', ''4'', ''0'',
       ''100'', ''PULSE''] @ [''5'', ''6'', ''7'']"
    by simp
  have ok: "list_all (\<lambda>t. \<not> fst (lib_to_double ?X (Some t)) <s 0)
      [''2400'', ''2500'', ''10'', ''0'', ''16'', ''1'', ''0'', ''1024'', ''4'', ''0'', ''100'']"
    by (simp add: example_lib_def is_digit_def word_sless_alt)
  have tt: "\<not> strstr ''PULSE'' ''LEVEL''" "\<not> strstr ''PULSE'' ''NONE''"
    by simp_all
  from wsa_sweep_entry_read_trigger_unrecognized
    [OF id q toks ok tt, of example_errors example_dev example_sweep_list]
  show ?thesis by (auto simp add: example_sweep_list_def)
qed

text \<open>
  The claim as first stated speaks of a token that is neither \<open>LEVEL\<close> nor \<open>NONE\<close>.
  The source tests with \<open>strstr\<close>, so a token that merely contains \<open>LEVEL\<close> is taken
  for a level trigger: for the token \<open>LEVELS\<close> the trigger fields are overwritten with
  the three fields that follow it.
\<close>

theorem wsa_sweep_entry_read_trigger_levels_counterexample:
  "''LEVELS'' \<noteq> ''LEVEL'' \<and> ''LEVELS'' \<noteq> ''NONE''
   \<and> tokens [] ''2400,2500,10,0,16,1,HIGH,0,1024,4,0,100,LEVELS,5,6,7'' ! 12 = ''LEVELS''
   \<and> trigger_enable example_sweep_list = 1 \<and> trigger_start_freq example_sweep_list = 77
   \<and> wsa_sweep_entry_read
        (example_lib ''STOPPED'' ''2400,2500,10,0,16,1,HIGH,0,1024,4,0,100,LEVELS,5,6,7'')
        example_errors example_dev 1 example_sweep_list example_world
      = Some (0,
          example_sweep_list\<lparr>start_freq := 2400, stop_freq := 2500, fstep := 10, fshift := 0,
            decimation_rate := 16, ant_port := 1, gain_rf := WSA_GAIN_HIGH, gain_if := 0,
            samples_per_packet := 1024, packets_per_block := 4, dwell_seconds := 0,
            dwell_microseconds := 100, trigger_enable := 1, trigger_start_freq := 5,
            trigger_stop_freq := 6, trigger_amplitude := 7\<rparr>,
          example_world\<lparr>inst := 0,
            trace := Query (''SWEEP:ENTRY:READ? '' @ fmt_d 1 @ nl)
              # map (To_double \<circ> Some) [''2400'', ''2500'', ''10'', ''0'', ''16'', ''1'', ''0'',
                  ''1024'', ''4'', ''0'', ''100'', ''5'', ''6'', ''7''],
            strtok_rest := []\<rparr>)"
  by (simp add: wsa_sweep_entry_read_def wsa_send_query_def next_double_def first_double_def
      strtok_first_def strtok_next_def to_double_def gain_rf_strtonum_def
      example_lib_def example_world_def example_sweep_list_def is_digit_def dec_value_def
      double_to_int64_def double_to_int32_def double_to_int16_def trunc_def
      word_sle_eq word_sless_alt Let_def)

text \<open>
  C10 (as amended). Once the stop command and the flush inside \<open>wsa_sweep_stop\<close> have
  succeeded, and provided that \<open>5000 + start_time\<close> is a value of \<open>clock_t\<close> and that some
  later reading of \<open>clock()\<close> exceeds it, \<open>wsa_sweep_stop\<close> returns 0, whatever the reads
  of the data channel in its drain loop return: the instrument \<open>X\<close>, and with it the
  result of every read, is arbitrary. The loop runs until the first reading of the clock
  beyond \<open>5000 + start_time\<close>, and what was received has no part in that.
\<close>

theorem wsa_sweep_stop_returns_0:
  assumes stop: "wsa_send_command X dev (''SWEEP:LIST:STOP'' @ nl) w = (r1, w1)" "\<not> r1 <s 0"
    and flush: "wsa_flush_data X E dev w1 = (r2, w2)" "\<not> r2 <s 0"
    and start: "clock X w2 = (start_time, w3)"
    and fits: "5000 + start_time \<le> clock_t_max X"
    and expire: "5000 + start_time < fst (clock X ((wsa_sweep_stop_drain_step X dev ^^ n) w3))"
  shows "wsa_sweep_stop X E dev w =
    Some (Inr (0, snd (clock X ((wsa_sweep_stop_drain_step X dev ^^
        (LEAST k. 5000 + start_time
            < fst (clock X ((wsa_sweep_stop_drain_step X dev ^^ k) w3)))) w3))))"
  using stop flush start fits wsa_sweep_stop_loop_least [OF expire]
  by (simp add: wsa_sweep_stop_def Let_def)

theorem wsa_sweep_stop_returns_0_witness:
  "\<exists>w'. wsa_sweep_stop (example_lib ''STOPPED'' ''0'') example_errors example_dev example_world
     = Some (Inr (0, w'))"
proof -
  let ?X = "example_lib ''STOPPED'' ''0''"
  let ?w1 = "example_world\<lparr>inst := 0, trace := [Command (''SWEEP:LIST:STOP'' @ nl)]\<rparr>"
  let ?w2 = "example_world\<lparr>inst := 0, trace := [Command (''SWEEP:LIST:STOP'' @ nl),
      Query (''SWEEP:LIST:STATUS?'' @ nl), Command (''SWEEP:FLUSH'' @ nl)]\<rparr>"
  let ?w3 = "example_world\<lparr>inst := 3000, trace := [Command (''SWEEP:LIST:STOP'' @ nl),
      Query (''SWEEP:LIST:STATUS?'' @ nl), Command (''SWEEP:FLUSH'' @ nl), Clock]\<rparr>"
  have stop: "wsa_send_command ?X example_dev (''SWEEP:LIST:STOP'' @ nl) example_world = (0, ?w1)"
      "\<not> (0 :: int16_t) <s 0"
    by (simp_all add: wsa_send_command_def example_lib_def example_world_def)
  have flush: "wsa_flush_data ?X example_errors example_dev ?w1 = (0, ?w2)"
    by (simp add: wsa_flush_data_def wsa_get_sweep_status_def wsa_send_query_def
          wsa_send_command_def example_lib_def example_world_def word_sle_eq word_sless_alt)
  have start: "clock ?X ?w2 = (0, ?w3)"
    by (simp add: clock_def example_lib_def example_world_def)
  have fits: "5000 + 0 \<le> clock_t_max ?X"
    by (simp add: example_lib_def)
  have expire: "5000 + 0 < fst (clock ?X ((wsa_sweep_stop_drain_step ?X example_dev ^^ Suc 0) ?w3))"
    by (simp add: clock_def wsa_sweep_stop_drain_step_def wsa_sock_recv_data_def
          example_lib_def example_world_def)
  from wsa_sweep_stop_returns_0 [OF stop flush stop(2) start fits expire]
  show ?thesis by blast
qed

text \<open>
  C10 as stated, that \<open>wsa_sweep_stop\<close> always returns 0 once the stop command and the
  flush have succeeded, fails when no reading of the clock exceeds \<open>5000 + start_time\<close>.
  With \<open>clock()\<close> returning \<open>-1\<close> at every call, the value by which the C library
  reports that the processor time is not available, the stop command and the flush
  succeed and the drain loop never ends: \<open>wsa_sweep_stop\<close> returns nothing.
\<close>

theorem wsa_sweep_stop_stuck_clock_counterexample:
  "fst (wsa_send_command ((example_lib ''STOPPED'' ''0'')\<lparr>lib_clock := (\<lambda>i. (- 1, i))\<rparr>)
      example_dev (''SWEEP:LIST:STOP'' @ nl) example_world) = 0
   \<and> fst (wsa_flush_data ((example_lib ''STOPPED'' ''0'')\<lparr>lib_clock := (\<lambda>i. (- 1, i))\<rparr>)
      example_errors example_dev
      (snd (wsa_send_command ((example_lib ''STOPPED'' ''0'')\<lparr>lib_clock := (\<lambda>i. (- 1, i))\<rparr>)
        example_dev (''SWEEP:LIST:STOP'' @ nl) example_world))) = 0
   \<and> wsa_sweep_stop ((example_lib ''STOPPED'' ''0'')\<lparr>lib_clock := (\<lambda>i. (- 1, i))\<rparr>)
        example_errors example_dev example_world = None"
proof -
  let ?X = "(example_lib ''STOPPED'' ''0'')\<lparr>lib_clock := (\<lambda>i. (- 1, i))\<rparr>"
  have X: "lib_send_command (example_lib ''STOPPED'' ''0'') i c = (0, i)"
      "lib_send_query (example_lib ''STOPPED'' ''0'') i (''SWEEP:LIST:STATUS?'' @ nl)
         = (\<lparr>status = 7, output = ''STOPPED''\<rparr>, i)"
      "clock_t_max (example_lib ''STOPPED'' ''0'') = 2147483647" for i c
    by (simp_all add: example_lib_def)
  have loop: "wsa_sweep_stop_loop ?X example_dev 4999 w = None" for w
    by (rule wsa_sweep_stop_loop_None) (simp add: stuck_clock)
  show ?thesis
    by (simp add: wsa_sweep_stop_def wsa_send_command_def wsa_flush_data_def
          wsa_get_sweep_status_def wsa_send_query_def clock_def X loop
          word_sle_eq word_sless_alt Let_def del: append.simps)
qed

end
